theory Spec2Isabelle
  imports Main "HOL-Library.AList"
begin

section \<open>JSON values and JavaScript's view of them\<close>

text \<open>
  The route handlers exchange JSON with their callers, with the database client and with
  the external scraping service. A JSON object is an association list from property
  names to values. Numbers are integers here: the handlers only test numbers for
  truthiness and copy them.
\<close>

datatype json =
    JNull
  | JBool bool
  | JNum int
  | JStr string
  | JArr "json list"
  | JObj "(string \<times> json) list"

type_synonym jsobject = "(string \<times> json) list"

text \<open>
  JavaScript truthiness of a value that may be \<open>undefined\<close> (\<open>None\<close>): \<open>undefined\<close>,
  \<open>null\<close>, \<open>false\<close>, \<open>0\<close> and the empty string are falsy, everything else is truthy.
\<close>

fun truthy :: "json option \<Rightarrow> bool" where
  "truthy None = False"
| "truthy (Some JNull) = False"
| "truthy (Some (JBool b)) = b"
| "truthy (Some (JNum n)) = (n \<noteq> 0)"
| "truthy (Some (JStr s)) = (s \<noteq> [])"
| "truthy (Some (JArr xs)) = True"
| "truthy (Some (JObj kvs)) = True"

text \<open>
  Property access \<open>v.k\<close> on a value that is not \<open>null\<close>: an object yields its property,
  any other value yields \<open>undefined\<close> for the property names the handlers read.
  On \<open>null\<close> the access throws; the handlers below test for \<open>JNull\<close> before they use
  \<open>get_prop\<close>.
\<close>

fun get_prop :: "json \<Rightarrow> string \<Rightarrow> json option" where
  "get_prop (JObj kvs) k = map_of kvs k"
| "get_prop v k = None"

text \<open>An optional property of an object literal: \<open>undefined\<close> is left out.\<close>

definition opt_field :: "string \<Rightarrow> json option \<Rightarrow> jsobject" where
  "opt_field k v = (case v of None \<Rightarrow> [] | Some x \<Rightarrow> [(k, x)])"

text \<open>
  \<open>String.prototype.trim\<close> on the ASCII white space characters (space, tab, line feed,
  vertical tab, form feed, carriage return).
\<close>

definition js_whitespace :: "char \<Rightarrow> bool" where
  "js_whitespace c = (c \<in> set [CHR '' '', CHR 0x09, CHR 0x0A, CHR 0x0B, CHR 0x0C, CHR 0x0D])"

definition trim :: "string \<Rightarrow> string" where
  "trim s = rev (dropWhile js_whitespace (rev (dropWhile js_whitespace s)))"

text \<open>
  \<open>x.length\<close> of a truthy value: the length of a string (of ASCII text: characters
  are bytes here) or of an array, the property of that name of an object, and
  \<open>undefined\<close> for a number or a boolean.
\<close>

fun js_length :: "json \<Rightarrow> json option" where
  "js_length (JStr s) = Some (JNum (int (length s)))"
| "js_length (JArr xs) = Some (JNum (int (length xs)))"
| "js_length (JObj kvs) = map_of kvs ''length''"
| "js_length v = None"

section \<open>The database\<close>

text \<open>
  The four tables of the schema (\<open>pages\<close>, \<open>html\<close>, \<open>etl\<close>, \<open>etl_run\<close>). A row is a JSON
  object with one property for each column; rows are kept in insertion order.
\<close>

record db =
  pages :: "jsobject list"
  html :: "jsobject list"
  etl :: "jsobject list"
  etl_run :: "jsobject list"

datatype coldefault = NoDefault | GenUuid | Now

text \<open>A column: its name, whether it is \<open>NOT NULL\<close> (or the primary key), its default.\<close>

type_synonym column = "string \<times> bool \<times> coldefault"

definition html_columns :: "column list" where
  "html_columns =
    [(''id'', True, GenUuid), (''page_id'', True, NoDefault), (''meta'', True, NoDefault),
     (''html'', True, NoDefault), (''created_at'', False, Now), (''user_id'', True, NoDefault)]"

definition etl_columns :: "column list" where
  "etl_columns =
    [(''id'', True, GenUuid), (''user_id'', True, NoDefault), (''page_id'', True, NoDefault),
     (''created_at'', False, Now), (''etl_name'', False, NoDefault), (''goal'', True, NoDefault),
     (''src_code'', True, NoDefault), (''html_page_run_id'', True, NoDefault),
     (''output_json_schema'', False, NoDefault)]"

definition etl_run_columns :: "column list" where
  "etl_run_columns =
    [(''id'', True, GenUuid), (''user_id'', True, NoDefault), (''html'', True, NoDefault),
     (''etl_id'', True, NoDefault), (''created_at'', False, Now), (''output_json'', False, NoDefault)]"

subsection \<open>Queries\<close>

text \<open>
  A chain of \<open>.eq(column, value)\<close> filters keeps the rows whose columns hold the given
  values, compared as JSON values (identifiers are strings); \<open>.single()\<close> yields the
  row when exactly one row is left and an error otherwise. Every handler treats the error and the missing row alike, so the result is
  an option. \<open>.select("a, b")\<close> keeps the named columns of the row.
\<close>

definition matches :: "(string \<times> json) list \<Rightarrow> jsobject \<Rightarrow> bool" where
  "matches conds r = list_all (\<lambda>c. map_of r (fst c) = Some (snd c)) conds"

definition single :: "jsobject list \<Rightarrow> jsobject option" where
  "single rs = (case rs of [r] \<Rightarrow> Some r | _ \<Rightarrow> None)"

definition select_single :: "(string \<times> json) list \<Rightarrow> jsobject list \<Rightarrow> jsobject option" where
  "select_single conds rows = single (filter (matches conds) rows)"

definition project :: "string list \<Rightarrow> jsobject \<Rightarrow> jsobject" where
  "project cols r = filter (\<lambda>kv. fst kv \<in> set cols) r"

subsection \<open>Inserts\<close>

text \<open>
  What the database contributes to an insert: the identifier \<open>uuid_generate_v4()\<close>
  draws, the value of \<open>NOW()\<close>, and a failure of the statement for a reason outside
  this model (connection, row level security, foreign keys, column types).
\<close>

record dbenv =
  uuid :: string
  now :: string
  failure :: "string option"

datatype db_error =
    OtherFailure string
  | UndefinedColumn string
  | NotNullViolation string
  | UniqueViolation

text \<open>
  The text of an error, which two of the handlers pass on to the caller. The texts
  stand for those of the database; nothing below depends on their wording.
\<close>

definition message :: "db_error \<Rightarrow> string" where
  "message e =
    (case e of
       OtherFailure m \<Rightarrow> m
     | UndefinedColumn c \<Rightarrow> ''Could not find the column '' @ c
     | NotNullViolation c \<Rightarrow> ''null value in column '' @ c @ '' violates not-null constraint''
     | UniqueViolation \<Rightarrow> ''duplicate key value violates unique constraint'')"

text \<open>
  The stored row has every column of the table: the supplied value where the payload
  names the column, the column default otherwise, \<open>NULL\<close> where there is none.
\<close>

definition complete_row :: "column list \<Rightarrow> dbenv \<Rightarrow> jsobject \<Rightarrow> jsobject" where
  "complete_row cols e r =
    map (\<lambda>c. (fst c,
          (case map_of r (fst c) of
             Some v \<Rightarrow> v
           | None \<Rightarrow> (case snd (snd c) of
                        GenUuid \<Rightarrow> JStr (uuid e)
                      | Now \<Rightarrow> JStr (now e)
                      | NoDefault \<Rightarrow> JNull)))) cols"

text \<open>
  \<open>.insert(row).select().single()\<close>: the payload may name only columns of the table,
  no \<open>NOT NULL\<close> column may end up \<open>NULL\<close>, and the primary key \<open>id\<close> must be new.
  On success the stored row is returned and appended to the table.
\<close>

definition insert_row ::
  "column list \<Rightarrow> dbenv \<Rightarrow> jsobject list \<Rightarrow> jsobject \<Rightarrow> db_error + (jsobject \<times> jsobject list)" where
  "insert_row cols e rows r =
    (case failure e of
       Some m \<Rightarrow> Inl (OtherFailure m)
     | None \<Rightarrow>
        (case filter (\<lambda>k. k \<notin> set (map fst cols)) (map fst r) of
           k # ks \<Rightarrow> Inl (UndefinedColumn k)
         | [] \<Rightarrow>
            (let r' = complete_row cols e r in
             (case filter (\<lambda>c. fst (snd c) \<and> map_of r' (fst c) = Some JNull) cols of
                c # cs \<Rightarrow> Inl (NotNullViolation (fst c))
              | [] \<Rightarrow>
                 if map_of r' ''id'' \<in> set (map (\<lambda>x. map_of x ''id'') rows)
                 then Inl UniqueViolation
                 else Inr (r', rows @ [r'])))))"

section \<open>The handlers' surroundings\<close>

text \<open>
  A response of a handler is an HTTP status and a JSON body
  (\<open>NextResponse.json(body, { status })\<close>).
\<close>

type_synonym response = "nat \<times> json"

definition error_response :: "nat \<Rightarrow> string \<Rightarrow> response" where
  "error_response st msg = (st, JObj [(''error'', JStr msg)])"

text \<open>
  The outcome of one \<open>fetch\<close> to the scraping service: the call throws (with the
  error's message, if the thrown value is an \<open>Error\<close>), or it resolves to a response
  with a status, a body text and the body read as JSON (\<open>None\<close> when \<open>.json()\<close> throws).
\<close>

datatype fetch_result =
    FetchThrows "string option"
  | FetchResponse nat string "json option"

definition ok :: "nat \<Rightarrow> bool" where
  "ok st = (200 \<le> st \<and> st \<le> 299)"

text \<open>An outbound call: the URL and the JSON body that is posted.\<close>

type_synonym call = "string \<times> json"

text \<open>
  What one request finds around it: the authenticated user, the configured
  \<open>WEB_SCRAPE_URL\<close>, the answer of the scraping service to the one call the handler may
  make, the database's contribution to the one insert it may make, the
  gzip-then-base64 encoding of a text, and \<open>new Date().toISOString()\<close>.
\<close>

record request_env =
  auth_user :: "string option"
  web_scrape_url :: "string option"
  fetch_result :: fetch_result
  db_env :: dbenv
  gzip_base64 :: "string \<Rightarrow> string"
  clock :: string

text \<open>\<open>`${process.env.WEB_SCRAPE_URL}`\<close> inside a template string.\<close>

definition env_url :: "request_env \<Rightarrow> string" where
  "env_url env = (case web_scrape_url env of None \<Rightarrow> ''undefined'' | Some u \<Rightarrow> u)"

definition internal_server_error :: response where
  "internal_server_error = error_response 500 ''Internal server error''"

section \<open>Running an extraction: \<open>POST /api/pages/[pageId]/etl/[etlId]/run\<close>\<close>

text \<open>
  The test \<open>!src_code || src_code.trim() === ""\<close> that the handler (and the extraction
  list of the user interface) uses for "still being trained". \<open>None\<close> stands for the
  \<open>TypeError\<close> of calling \<open>.trim()\<close> on a truthy value that is not a string.
\<close>

definition still_training :: "json option \<Rightarrow> bool option" where
  "still_training v =
    (if \<not> truthy v then Some True
     else (case v of Some (JStr s) \<Rightarrow> Some (trim s = []) | _ \<Rightarrow> None))"

text \<open>
  What the handler holds when it reaches the \<open>fetch\<close>: the user, the identifier of the
  definition, the rows \<open>etlConfig\<close> and \<open>selectedHtmlRun\<close>, the text of the snapshot, and
  the call it is about to make.
\<close>

record run_ctx =
  ctx_user :: string
  ctx_etl_id :: string
  ctx_etl :: jsobject
  ctx_html_run :: jsobject
  ctx_html_text :: string
  ctx_call :: call

definition not_ready_response :: response where
  "not_ready_response =
    error_response 400
      ''ETL configuration is still being trained. Please wait for training to complete.''"

text \<open>
  The handler up to the \<open>fetch\<close>: authentication, the page, the definition, the training
  test, the request body, the snapshot (the one named by \<open>html_run_id\<close>, or else the one
  the definition was trained on), and the configuration test. \<open>reqBody\<close> is \<open>None\<close> when
  the request body is not JSON; the handler then continues with \<open>{}\<close>.
\<close>

definition POST_run_validate ::
  "request_env \<Rightarrow> db \<Rightarrow> string \<Rightarrow> string \<Rightarrow> json option \<Rightarrow> response + run_ctx" where
  "POST_run_validate env d pageId etlId reqBody =
    (case auth_user env of
       None \<Rightarrow> Inl (error_response 401 ''Unauthorized'')
     | Some uid \<Rightarrow>
    (case select_single [(''id'', JStr pageId), (''user_id'', JStr uid)] (pages d) of
       None \<Rightarrow> Inl (error_response 404 ''Page not found or access denied'')
     | Some page_row \<Rightarrow>
    (case select_single
            [(''id'', JStr etlId), (''page_id'', JStr pageId), (''user_id'', JStr uid)] (etl d) of
       None \<Rightarrow> Inl (error_response 404 ''ETL configuration not found or access denied'')
     | Some etlConfig \<Rightarrow>
    (case still_training (map_of etlConfig ''src_code'') of
       None \<Rightarrow> Inl internal_server_error
     | Some True \<Rightarrow> Inl not_ready_response
     | Some False \<Rightarrow>
    (let body = (case reqBody of None \<Rightarrow> JObj [] | Some b \<Rightarrow> b) in
     if body = JNull then Inl internal_server_error
     else
    (let html_run_id = get_prop body ''html_run_id'';
         found =
           (case (if truthy html_run_id then html_run_id else None) of
              Some hid \<Rightarrow>
                (case select_single
                        [(''id'', hid), (''page_id'', JStr pageId),
                         (''user_id'', JStr uid)] (html d) of
                   None \<Rightarrow> Inl (error_response 404 ''HTML run not found or access denied'')
                 | Some htmlRun \<Rightarrow> Inr htmlRun)
            | None \<Rightarrow>
                (case (case map_of etlConfig ''html_page_run_id'' of
                         None \<Rightarrow> None
                       | Some hid \<Rightarrow>
                           select_single
                             [(''id'', hid), (''page_id'', JStr pageId),
                              (''user_id'', JStr uid)] (html d)) of
                   None \<Rightarrow>
                     Inl (error_response 404
                       ''ETL's associated HTML run not found. Please select a different HTML run.'')
                 | Some htmlRun \<Rightarrow> Inr htmlRun))
     in
    (case found of
       Inl r \<Rightarrow> Inl r
     | Inr selectedHtmlRun \<Rightarrow>
    (case map_of selectedHtmlRun ''html'' of
       Some (JStr h) \<Rightarrow>
         (if \<not> truthy (map_option JStr (web_scrape_url env))
          then Inl (error_response 500 ''Web scraping service not configured'')
          else Inr \<lparr>ctx_user = uid, ctx_etl_id = etlId, ctx_etl = etlConfig,
                    ctx_html_run = selectedHtmlRun, ctx_html_text = h,
                    ctx_call =
                      (env_url env @ ''/pages/execute-etl'',
                       JObj ([(''html_gzip_base64'', JStr (gzip_base64 env h)),
                              (''html_compressed'', JBool True)]
                             @ opt_field ''url'' (map_of (project [''id'', ''url''] page_row) ''url'')
                             @ opt_field ''goal'' (map_of etlConfig ''goal'')
                             @ opt_field ''etl_function_code'' (map_of etlConfig ''src_code'')))\<rparr>)
     | _ \<Rightarrow> Inl internal_server_error))))))))"

text \<open>
  The handler from the answer of the \<open>fetch\<close> on: a thrown \<open>fetch\<close> is a 503, a
  response that is not ok a 500, a body that is not JSON an exception caught by the
  outer \<open>catch\<close>. Otherwise the run is inserted with exactly the four properties
  \<open>html\<close>, \<open>etl_id\<close>, \<open>output_json\<close>, \<open>user_id\<close>.
\<close>

definition run_payload :: "run_ctx \<Rightarrow> json \<Rightarrow> jsobject" where
  "run_payload ctx extractionResult =
    opt_field ''html'' (map_of (ctx_html_run ctx) ''id'')
    @ [(''etl_id'', JStr (ctx_etl_id ctx)),
       (''output_json'', extractionResult),
       (''user_id'', JStr (ctx_user ctx))]"

text \<open>The answer to a run request that has stored its run.\<close>

definition run_answer :: "run_ctx \<Rightarrow> jsobject \<Rightarrow> response" where
  "run_answer ctx etlRun =
    (201, JObj [(''data'', JObj etlRun),
                (''etl_config'', JObj (ctx_etl ctx)),
                (''html_run'',
                   JObj (opt_field ''id'' (map_of (ctx_html_run ctx) ''id'')
                         @ opt_field ''created_at'' (map_of (ctx_html_run ctx) ''created_at'')
                         @ [(''html_length'', JNum (int (length (ctx_html_text ctx))))])),
                (''message'', JStr ''Extraction run completed successfully'')])"

definition POST_run_complete :: "request_env \<Rightarrow> db \<Rightarrow> run_ctx \<Rightarrow> response \<times> db" where
  "POST_run_complete env d ctx =
    (case fetch_result env of
       FetchThrows m \<Rightarrow>
         ((503, JObj [(''error'',
                       JStr ''Web scraping service is unavailable. Please ensure the server is running.''),
                      (''details'', JStr (case m of None \<Rightarrow> ''Unknown error'' | Some x \<Rightarrow> x))]), d)
     | FetchResponse st txt js \<Rightarrow>
         if \<not> ok st then (error_response 500 ''Failed to execute ETL extraction'', d)
         else
          (case js of
             None \<Rightarrow> (internal_server_error, d)
           | Some extractionResult \<Rightarrow>
              (case insert_row etl_run_columns (db_env env) (etl_run d)
                      (run_payload ctx extractionResult) of
                 Inl e \<Rightarrow> (error_response 500 ''Failed to save extraction run'', d)
               | Inr (etlRun, rows') \<Rightarrow> (run_answer ctx etlRun, d\<lparr>etl_run := rows'\<rparr>))))"

text \<open>
  The whole handler. The third component lists the calls made to the scraping service:
  there is one \<open>fetch\<close> in the handler, reached only when the validation passes.
\<close>

definition POST_run ::
  "request_env \<Rightarrow> db \<Rightarrow> string \<Rightarrow> string \<Rightarrow> json option \<Rightarrow> response \<times> db \<times> call list" where
  "POST_run env d pageId etlId reqBody =
    (case POST_run_validate env d pageId etlId reqBody of
       Inl r \<Rightarrow> (r, d, [])
     | Inr ctx \<Rightarrow>
        (case POST_run_complete env d ctx of
           (r, d') \<Rightarrow> (r, d', [ctx_call ctx])))"

section \<open>Capturing a snapshot: \<open>POST /api/pages/[pageId]/html\<close>\<close>

text \<open>
  The handler asks the scraping service for the page's HTML and stores what it gets.
  The \<open>fetch\<close> is not guarded: when it throws, or when the body is not JSON, the outer
  \<open>catch\<close> answers. The stored \<open>html\<close> is the value of the answer's \<open>html\<close> property.
\<close>

definition no_html_response :: "json \<Rightarrow> response" where
  "no_html_response htmlData =
    (500, JObj [(''error'', JStr ''No HTML data returned from the scraper''),
                (''received'', htmlData)])"

definition html_payload ::
  "request_env \<Rightarrow> string \<Rightarrow> string \<Rightarrow> jsobject \<Rightarrow> nat \<Rightarrow> json \<Rightarrow> json \<Rightarrow> jsobject" where
  "html_payload env pageId uid page st htmlData htmlv =
    [(''page_id'', JStr pageId),
     (''html'', htmlv),
     (''meta'',
        JObj (opt_field ''url'' (map_of page ''url'')
              @ [(''fetch_timestamp'', JStr (clock env))]
              @ opt_field ''html_length'' (js_length htmlv)
              @ [(''scraper_service'', JStr ''pagent-os-api''),
                 (''response_status'', JNum (int st))]
              @ opt_field ''scraper_meta'' (get_prop htmlData ''meta''))),
     (''user_id'', JStr uid)]"

definition POST_html :: "request_env \<Rightarrow> db \<Rightarrow> string \<Rightarrow> response \<times> db \<times> call list" where
  "POST_html env d pageId =
    (case auth_user env of
       None \<Rightarrow> (error_response 401 ''Unauthorized'', d, [])
     | Some uid \<Rightarrow>
    (case select_single [(''id'', JStr pageId), (''user_id'', JStr uid)] (pages d) of
       None \<Rightarrow> (error_response 404 ''Page not found or access denied'', d, [])
     | Some page_row \<Rightarrow>
    (let page = project [''id'', ''url''] page_row;
         c = (env_url env @ ''/pages/get-html'',
              JObj (opt_field ''url'' (map_of page ''url'') @ [(''format'', JStr ''json'')]))
     in
    (case fetch_result env of
       FetchThrows m \<Rightarrow> (internal_server_error, d, [c])
     | FetchResponse st txt js \<Rightarrow>
        if \<not> ok st
        then ((st, JObj [(''error'', JStr ''Failed to fetch HTML from scraping service''),
                         (''details'', JStr txt),
                         (''status'', JNum (int st))]), d, [c])
        else
    (case js of
       None \<Rightarrow> (internal_server_error, d, [c])
     | Some htmlData \<Rightarrow>
        if \<not> truthy (Some htmlData) \<or> \<not> truthy (get_prop htmlData ''html'')
        then (no_html_response htmlData, d, [c])
        else
    (case get_prop htmlData ''html'' of
       None \<Rightarrow> (no_html_response htmlData, d, [c])
     | Some htmlv \<Rightarrow>
    (case insert_row html_columns (db_env env) (html d)
            (html_payload env pageId uid page st htmlData htmlv) of
       Inl e \<Rightarrow> (error_response 500 ''Failed to save HTML run'', d, [c])
     | Inr (htmlRun, rows') \<Rightarrow>
         ((201, JObj [(''data'', JObj htmlRun),
                      (''message'', JStr ''HTML fetched and saved successfully'')]),
          d\<lparr>html := rows'\<rparr>, [c]))))))))"

text \<open>
  Reading one snapshot back: the query every handler uses for it, by identifier, page
  and user (\<open>.from("html").select("*").eq("id", ...).eq("page_id", ...).eq("user_id",
  ...).single()\<close>).
\<close>

definition get_html_run :: "db \<Rightarrow> json \<Rightarrow> string \<Rightarrow> string \<Rightarrow> jsobject option" where
  "get_html_run d hid pageId uid =
    select_single [(''id'', hid), (''page_id'', JStr pageId), (''user_id'', JStr uid)] (html d)"

section \<open>Learning a definition: \<open>POST /api/pages/[pageId]/etl/learn\<close>\<close>

text \<open>\<open>v || null\<close>\<close>

definition or_null :: "json option \<Rightarrow> json" where
  "or_null v = (case v of None \<Rightarrow> JNull | Some x \<Rightarrow> if truthy (Some x) then x else JNull)"

definition learn_payload :: "string \<Rightarrow> string \<Rightarrow> json \<Rightarrow> json option \<Rightarrow> json \<Rightarrow> json \<Rightarrow> jsobject" where
  "learn_payload uid pageId goal entities_schema etl_function_code hid =
    [(''user_id'', JStr uid),
     (''page_id'', JStr pageId),
     (''goal'', goal),
     (''output_json_schema'', or_null entities_schema),
     (''src_code'', etl_function_code),
     (''html_page_run_id'', hid)]"

definition learn_failed_response :: response where
  "learn_failed_response = error_response 500 ''Failed to process ETL learning''"

definition no_code_response :: response where
  "no_code_response = error_response 500 ''ETL function code not generated''"

text \<open>
  The handler from the answer of the \<open>fetch\<close> on. The \<open>fetch\<close> is not guarded: when
  it throws, when the body is not JSON, or when the body is \<open>null\<close> (whose properties
  cannot be read), the outer \<open>catch\<close> answers.
\<close>

definition POST_learn_complete ::
  "request_env \<Rightarrow> db \<Rightarrow> string \<Rightarrow> string \<Rightarrow> json \<Rightarrow> json \<Rightarrow> response \<times> db" where
  "POST_learn_complete env d uid pageId goal hid =
    (case fetch_result env of
       FetchThrows m \<Rightarrow> (internal_server_error, d)
     | FetchResponse st txt js \<Rightarrow>
        if \<not> ok st then (learn_failed_response, d)
        else
    (case js of
       None \<Rightarrow> (internal_server_error, d)
     | Some learnEtlData \<Rightarrow>
        if learnEtlData = JNull then (internal_server_error, d)
        else
    (case (if truthy (get_prop learnEtlData ''etl_function_code'')
           then get_prop learnEtlData ''etl_function_code'' else None) of
       None \<Rightarrow> (no_code_response, d)
     | Some etl_function_code \<Rightarrow>
    (case insert_row etl_columns (db_env env) (etl d)
            (learn_payload uid pageId goal (get_prop learnEtlData ''entities_schema'')
               etl_function_code hid) of
       Inl e \<Rightarrow> (error_response 400 (message e), d)
     | Inr (etl_row, rows') \<Rightarrow>
         ((201, JObj [(''data'', JObj etl_row),
                      (''message'', JStr ''ETL configuration created successfully'')]),
          d\<lparr>etl := rows'\<rparr>)))))"

text \<open>
  The whole handler. \<open>reqBody\<close> is \<open>None\<close> when the request body is not JSON:
  \<open>request.json()\<close> throws and the outer \<open>catch\<close> answers, as it does when a property
  of \<open>null\<close> is read. The third component lists the calls made to the scraping service:
  there is one \<open>fetch\<close> in the handler, reached only when the validation passes.
\<close>

definition POST_learn ::
  "request_env \<Rightarrow> db \<Rightarrow> string \<Rightarrow> json option \<Rightarrow> response \<times> db \<times> call list" where
  "POST_learn env d pageId reqBody =
    (case auth_user env of
       None \<Rightarrow> (error_response 401 ''Unauthorized'', d, [])
     | Some uid \<Rightarrow>
    (case select_single [(''id'', JStr pageId), (''user_id'', JStr uid)] (pages d) of
       None \<Rightarrow> (error_response 404 ''Page not found or access denied'', d, [])
     | Some page_row \<Rightarrow>
    (case reqBody of
       None \<Rightarrow> (internal_server_error, d, [])
     | Some body \<Rightarrow>
        if body = JNull then (internal_server_error, d, [])
        else
    (case (if truthy (get_prop body ''goal'') then get_prop body ''goal'' else None) of
       None \<Rightarrow> (error_response 400 ''Goal is required'', d, [])
     | Some goal \<Rightarrow>
    (case (if truthy (get_prop body ''html_page_run_id'')
           then get_prop body ''html_page_run_id'' else None) of
       None \<Rightarrow> (error_response 400 ''HTML run selection is required'', d, [])
     | Some hid \<Rightarrow>
    (case get_html_run d hid pageId uid of
       None \<Rightarrow> (error_response 404 ''HTML run not found or access denied'', d, [])
     | Some html_row \<Rightarrow>
    (case map_of (project [''id'', ''html''] html_row) ''html'' of
       Some (JStr h) \<Rightarrow>
         (case POST_learn_complete env d uid pageId goal hid of
            (r, d') \<Rightarrow>
              (r, d',
               [(env_url env @ ''/pages/learn-etl'',
                 JObj (opt_field ''url'' (map_of (project [''id'', ''url''] page_row) ''url'')
                       @ [(''html'', JStr (gzip_base64 env h)),
                          (''html_compressed'', JBool True),
                          (''goal'', goal)]))]))
     | _ \<Rightarrow> (internal_server_error, d, []))))))))"

section \<open>Creating a definition directly: \<open>POST /api/pages/[pageId]/etl\<close>\<close>

text \<open>
  The object spread \<open>{...body}\<close>. The handler reaches it only with a body whose \<open>goal\<close>
  is truthy, which only an object can have.
\<close>

definition spread :: "json \<Rightarrow> jsobject" where
  "spread v = (case v of JObj kvs \<Rightarrow> kvs | _ \<Rightarrow> [])"

text \<open>\<open>{ ...body, page_id: pageId, user_id: user.id }\<close>\<close>

definition etlData :: "json \<Rightarrow> string \<Rightarrow> string \<Rightarrow> jsobject" where
  "etlData body pageId uid =
    AList.update ''user_id'' (JStr uid) (AList.update ''page_id'' (JStr pageId) (spread body))"

definition POST_etl ::
  "request_env \<Rightarrow> db \<Rightarrow> string \<Rightarrow> json option \<Rightarrow> response \<times> db \<times> call list" where
  "POST_etl env d pageId reqBody =
    (case auth_user env of
       None \<Rightarrow> (error_response 401 ''Unauthorized'', d, [])
     | Some uid \<Rightarrow>
    (case select_single [(''id'', JStr pageId), (''user_id'', JStr uid)] (pages d) of
       None \<Rightarrow> (error_response 404 ''Page not found or access denied'', d, [])
     | Some page_row \<Rightarrow>
    (case reqBody of
       None \<Rightarrow> (internal_server_error, d, [])
     | Some body \<Rightarrow>
        if body = JNull then (internal_server_error, d, [])
        else if \<not> truthy (get_prop body ''goal'')
        then (error_response 400 ''Goal is required'', d, [])
        else
    (case (if truthy (get_prop body ''html_page_run_id'')
           then get_prop body ''html_page_run_id'' else None) of
       None \<Rightarrow> (error_response 400 ''HTML run selection is required'', d, [])
     | Some hid \<Rightarrow>
    (case get_html_run d hid pageId uid of
       None \<Rightarrow> (error_response 404 ''HTML run not found or access denied'', d, [])
     | Some html_row \<Rightarrow>
    (case insert_row etl_columns (db_env env) (etl d) (etlData body pageId uid) of
       Inl e \<Rightarrow> (error_response 400 (message e), d, [])
     | Inr (etl_row, rows') \<Rightarrow>
         ((201, JObj [(''data'', JObj etl_row),
                      (''message'', JStr ''ETL configuration created successfully'')]),
          d\<lparr>etl := rows'\<rparr>, [])))))))"

section \<open>Re-training from the extraction list: \<open>handleRetrain\<close>\<close>

text \<open>
  The row type \<open>Tables<"etl">\<close> that the component holds for the definition being
  re-trained (\<open>retrainConfig\<close>).
\<close>

record PageEtl =
  cfg_created_at :: "string option"
  cfg_etl_name :: "string option"
  cfg_goal :: string
  cfg_html_page_run_id :: string
  cfg_id :: string
  cfg_output_json_schema :: "json option"
  cfg_page_id :: string
  cfg_src_code :: string
  cfg_user_id :: string

text \<open>The body that \<open>handleRetrain\<close> posts.\<close>

definition retrain_body :: "PageEtl \<Rightarrow> string \<Rightarrow> json" where
  "retrain_body retrainConfig refinementGoal =
    JObj [(''goal'',
             JStr (cfg_goal retrainConfig @ [CHR 0x0A, CHR 0x0A] @ ''Refinement Goal: ''
                   @ refinementGoal)),
          (''html_page_run_id'', JStr (cfg_html_page_run_id retrainConfig)),
          (''etl_name'',
             JStr ((case cfg_etl_name retrainConfig of
                      None \<Rightarrow> ''Untitled''
                    | Some n \<Rightarrow> if n = [] then ''Untitled'' else n) @ '' - Retrained''))]"

text \<open>
  \<open>handleRetrain\<close> returns without a request when there is no \<open>retrainConfig\<close> or the
  refinement goal is blank (\<open>None\<close>); otherwise it posts the body to
  \<open>/api/pages/${pageId}/etl\<close>, the route of \<open>POST_etl\<close>.
\<close>

definition handleRetrain ::
  "request_env \<Rightarrow> db \<Rightarrow> string \<Rightarrow> PageEtl option \<Rightarrow> string \<Rightarrow> (response \<times> db \<times> call list) option" where
  "handleRetrain env d pageId retrainConfig refinementGoal =
    (case retrainConfig of
       None \<Rightarrow> None
     | Some c \<Rightarrow>
        if trim refinementGoal = [] then None
        else Some (POST_etl env d pageId (Some (retrain_body c refinementGoal))))"

section \<open>Requests in sequence and requests that overlap\<close>

text \<open>
  The four handlers that write to the \<open>html\<close>, \<open>etl\<close> and \<open>etl_run\<close> tables, as
  operations on the database.
\<close>

datatype operation =
    Capture request_env string
  | Learn request_env string "json option"
  | Create request_env string "json option"
  | Execute request_env string string "json option"

fun apply_operation :: "operation \<Rightarrow> db \<Rightarrow> db" where
  "apply_operation (Capture env pageId) d = fst (snd (POST_html env d pageId))"
| "apply_operation (Learn env pageId b) d = fst (snd (POST_learn env d pageId b))"
| "apply_operation (Create env pageId b) d = fst (snd (POST_etl env d pageId b))"
| "apply_operation (Execute env pageId etlId b) d = fst (snd (POST_run env d pageId etlId b))"

definition apply_operations :: "operation list \<Rightarrow> db \<Rightarrow> db" where
  "apply_operations ops d = fold apply_operation ops d"

text \<open>
  Requests to the run route that are served at the same time. A handler runs until it
  awaits the scraping service and resumes when the answer arrives; other requests may
  run in between. A request is therefore waiting to be served, or has its call in
  flight, or has been answered. The queries before the \<open>fetch\<close> are taken as one
  step: they read the tables \<open>pages\<close>, \<open>etl\<close> and \<open>html\<close>, which no run request
  writes. The handler keeps no record of the calls in flight: the system state below
  has one (\<open>sys_calls\<close>) only to count them.
\<close>

datatype thread =
    Waiting string string "json option"
  | Calling run_ctx
  | Answered response

record system =
  sys_db :: db
  sys_calls :: "(nat \<times> call) list"
  sys_threads :: "(request_env \<times> thread) list"

definition step :: "nat \<Rightarrow> system \<Rightarrow> system" where
  "step i s =
    (if i < length (sys_threads s)
     then (case sys_threads s ! i of
             (env, Waiting pageId etlId reqBody) \<Rightarrow>
               (case POST_run_validate env (sys_db s) pageId etlId reqBody of
                  Inl r \<Rightarrow> s\<lparr>sys_threads := (sys_threads s)[i := (env, Answered r)]\<rparr>
                | Inr ctx \<Rightarrow>
                    s\<lparr>sys_calls := sys_calls s @ [(i, ctx_call ctx)],
                      sys_threads := (sys_threads s)[i := (env, Calling ctx)]\<rparr>)
           | (env, Calling ctx) \<Rightarrow>
               (case POST_run_complete env (sys_db s) ctx of
                  (r, d') \<Rightarrow>
                    s\<lparr>sys_db := d',
                      sys_threads := (sys_threads s)[i := (env, Answered r)]\<rparr>)
           | (env, Answered r) \<Rightarrow> s)
     else s)"

definition run_schedule :: "nat list \<Rightarrow> system \<Rightarrow> system" where
  "run_schedule sched s = fold step sched s"

text \<open>The definition and the snapshot a call in flight is about.\<close>

definition pair_in_flight :: "request_env \<times> thread \<Rightarrow> (string \<times> json option) option" where
  "pair_in_flight t =
    (case snd t of
       Calling ctx \<Rightarrow> Some (ctx_etl_id ctx, map_of (ctx_html_run ctx) ''id'')
     | _ \<Rightarrow> None)"

text \<open>What the caller of a request has been told: the status and the \<open>data\<close> of the answer.\<close>

definition answer_of :: "request_env \<times> thread \<Rightarrow> (nat \<times> json option) option" where
  "answer_of t =
    (case snd t of
       Answered r \<Rightarrow> Some (fst r, get_prop (snd r) ''data'')
     | _ \<Rightarrow> None)"

text \<open>The database with its run history replaced.\<close>

definition with_runs :: "db \<Rightarrow> jsobject list \<Rightarrow> db" where
  "with_runs d rs = d\<lparr>etl_run := rs\<rparr>"

section \<open>Outcomes of the scraping service\<close>

text \<open>
  The execution call has failed when the \<open>fetch\<close> throws, the status is not a success
  status, or the body is not JSON.
\<close>

definition collaborator_failed :: "fetch_result \<Rightarrow> bool" where
  "collaborator_failed f =
    (case f of FetchThrows m \<Rightarrow> True | FetchResponse st txt js \<Rightarrow> \<not> ok st \<or> js = None)"

text \<open>The \<open>html\<close> property of the scraper's answer, when there is one.\<close>

definition fetched_html :: "fetch_result \<Rightarrow> json option" where
  "fetched_html f =
    (case f of
       FetchThrows m \<Rightarrow> None
     | FetchResponse st txt js \<Rightarrow> (case js of None \<Rightarrow> None | Some j \<Rightarrow> get_prop j ''html''))"

text \<open>
  The generation call has answered without an extraction function: a status that is
  not a success status, or a JSON body (other than \<open>null\<close>) whose \<open>etl_function_code\<close>
  is missing or empty.
\<close>

definition generation_failed :: "fetch_result \<Rightarrow> bool" where
  "generation_failed f =
    (case f of
       FetchThrows m \<Rightarrow> False
     | FetchResponse st txt js \<Rightarrow>
         \<not> ok st \<or>
         (case js of
            None \<Rightarrow> False
          | Some j \<Rightarrow> j \<noteq> JNull \<and> \<not> truthy (get_prop j ''etl_function_code'')))"

text \<open>The extraction function and the schema of a successful generation call.\<close>

definition generated :: "fetch_result \<Rightarrow> (json \<times> json option) option" where
  "generated f =
    (case f of
       FetchThrows m \<Rightarrow> None
     | FetchResponse st txt js \<Rightarrow>
         if \<not> ok st then None
         else (case js of
                 None \<Rightarrow> None
               | Some j \<Rightarrow>
                   if j = JNull then None
                   else (case get_prop j ''etl_function_code'' of
                           None \<Rightarrow> None
                         | Some code \<Rightarrow>
                             if truthy (Some code)
                             then Some (code, get_prop j ''entities_schema'')
                             else None)))"

section \<open>A small database to run the handlers on\<close>

definition ex_page1 :: jsobject where
  "ex_page1 =
    [(''id'', JStr ''p1''), (''created_at'', JStr ''t0''), (''user_id'', JStr ''u1''),
     (''url'', JStr ''https://a.example/'')]"

definition ex_page2 :: jsobject where
  "ex_page2 =
    [(''id'', JStr ''p2''), (''created_at'', JStr ''t0''), (''user_id'', JStr ''u1''),
     (''url'', JStr ''https://b.example/'')]"

definition ex_snap1 :: jsobject where
  "ex_snap1 =
    [(''id'', JStr ''s1''), (''page_id'', JStr ''p1''), (''meta'', JObj []),
     (''html'', JStr ''<html>A</html>''), (''created_at'', JStr ''t1''),
     (''user_id'', JStr ''u1'')]"

definition ex_snap2 :: jsobject where
  "ex_snap2 =
    [(''id'', JStr ''s2''), (''page_id'', JStr ''p2''), (''meta'', JObj []),
     (''html'', JStr ''<html>B</html>''), (''created_at'', JStr ''t1''),
     (''user_id'', JStr ''u1'')]"

text \<open>A trained definition with the declared schema \<open>{title, price}\<close>.\<close>

definition ex_def1 :: jsobject where
  "ex_def1 =
    [(''id'', JStr ''d1''), (''user_id'', JStr ''u1''), (''page_id'', JStr ''p1''),
     (''created_at'', JStr ''t2''), (''etl_name'', JNull), (''goal'', JStr ''extract title''),
     (''src_code'', JStr ''def extract(html): return {}''),
     (''html_page_run_id'', JStr ''s1''),
     (''output_json_schema'',
        JObj [(''title'', JStr ''string''), (''price'', JStr ''number'')])]"

text \<open>A definition without source code.\<close>

definition ex_def0 :: jsobject where
  "ex_def0 =
    [(''id'', JStr ''d0''), (''user_id'', JStr ''u1''), (''page_id'', JStr ''p1''),
     (''created_at'', JStr ''t2''), (''etl_name'', JNull), (''goal'', JStr ''extract title''),
     (''src_code'', JStr []), (''html_page_run_id'', JStr ''s1''),
     (''output_json_schema'', JNull)]"

definition ex_db :: db where
  "ex_db =
    \<lparr>pages = [ex_page1, ex_page2], html = [ex_snap1, ex_snap2],
     etl = [ex_def1, ex_def0], etl_run = []\<rparr>"

text \<open>
  The user \<open>u1\<close>, a configured service, an answer \<open>{title: "x"}\<close> with status 200, and
  a database that draws the identifier \<open>n1\<close>.
\<close>

definition ex_env :: request_env where
  "ex_env =
    \<lparr>auth_user = Some ''u1'', web_scrape_url = Some ''http://scraper'',
     fetch_result = FetchResponse 200 [] (Some (JObj [(''title'', JStr ''x'')])),
     db_env = \<lparr>uuid = ''n1'', now = ''t3'', failure = None\<rparr>,
     gzip_base64 = (\<lambda>s. s), clock = ''t3''\<rparr>"

text \<open>The same surroundings for a second request; the database draws \<open>n2\<close>.\<close>

definition ex_env2 :: request_env where
  "ex_env2 = ex_env\<lparr>db_env := \<lparr>uuid = ''n2'', now = ''t4'', failure = None\<rparr>\<rparr>"

definition ex_retrainConfig :: PageEtl where
  "ex_retrainConfig =
    \<lparr>cfg_created_at = Some ''t2'', cfg_etl_name = None, cfg_goal = ''extract title'',
     cfg_html_page_run_id = ''s1'', cfg_id = ''d1'',
     cfg_output_json_schema =
       Some (JObj [(''title'', JStr ''string''), (''price'', JStr ''number'')]),
     cfg_page_id = ''p1'', cfg_src_code = ''def extract(html): return {}'',
     cfg_user_id = ''u1''\<rparr>"

text \<open>Two requests to run \<open>d1\<close> on \<open>s1\<close>, both waiting to be served.\<close>

definition ex_system :: system where
  "ex_system =
    \<lparr>sys_db = ex_db, sys_calls = [],
     sys_threads =
       [(ex_env, Waiting ''p1'' ''d1'' (Some (JObj [(''html_run_id'', JStr ''s1'')]))),
        (ex_env2, Waiting ''p1'' ''d1'' (Some (JObj [(''html_run_id'', JStr ''s1'')])))]\<rparr>"

text \<open>What the run handler holds for \<open>d1\<close> on \<open>s1\<close> when it reaches the \<open>fetch\<close>.\<close>

definition ex_ctx :: run_ctx where
  "ex_ctx =
    \<lparr>ctx_user = ''u1'', ctx_etl_id = ''d1'', ctx_etl = ex_def1, ctx_html_run = ex_snap1,
     ctx_html_text = ''<html>A</html>'',
     ctx_call =
       (''http://scraper/pages/execute-etl'',
        JObj [(''html_gzip_base64'', JStr ''<html>A</html>''),
              (''html_compressed'', JBool True),
              (''url'', JStr ''https://a.example/''),
              (''goal'', JStr ''extract title''),
              (''etl_function_code'', JStr ''def extract(html): return {}'')])\<rparr>"

text \<open>The scraper answers with a page, and with an empty page.\<close>

definition ex_scraped :: json where
  "ex_scraped = JObj [(''html'', JStr ''<html>C</html>''), (''meta'', JObj [])]"

definition ex_env_capture :: request_env where
  "ex_env_capture = ex_env\<lparr>fetch_result := FetchResponse 200 [] (Some ex_scraped)\<rparr>"

definition ex_env_empty :: request_env where
  "ex_env_empty =
    ex_env\<lparr>fetch_result := FetchResponse 200 [] (Some (JObj [(''html'', JStr [])]))\<rparr>"

text \<open>A body for the direct create route that brings its own source code, and the row it yields.\<close>

definition ex_create_body :: json where
  "ex_create_body =
    JObj [(''goal'', JStr ''extract title''), (''html_page_run_id'', JStr ''s1''),
          (''src_code'', JStr ''return 1'')]"

definition ex_created :: jsobject where
  "ex_created =
    [(''id'', JStr ''n1''), (''user_id'', JStr ''u1''), (''page_id'', JStr ''p1''),
     (''created_at'', JStr ''t3''), (''etl_name'', JNull), (''goal'', JStr ''extract title''),
     (''src_code'', JStr ''return 1''), (''html_page_run_id'', JStr ''s1''),
     (''output_json_schema'', JNull)]"

text \<open>The run that is stored for \<open>d1\<close> on \<open>s1\<close> when the service answers \<open>{title: "x"}\<close>.\<close>

definition ex_run :: jsobject where
  "ex_run =
    [(''id'', JStr ''n1''), (''user_id'', JStr ''u1''), (''html'', JStr ''s1''),
     (''etl_id'', JStr ''d1''), (''created_at'', JStr ''t3''),
     (''output_json'', JObj [(''title'', JStr ''x'')])]"

definition ex_run_body :: json where
  "ex_run_body =
    JObj [(''data'', JObj ex_run),
          (''etl_config'', JObj ex_def1),
          (''html_run'',
             JObj [(''id'', JStr ''s1''), (''created_at'', JStr ''t1''),
                   (''html_length'', JNum 14)]),
          (''message'', JStr ''Extraction run completed successfully'')]"

text \<open>
  A learn request for \<open>s1\<close>, an answer of the generation service with an extraction
  function and a schema, the call the handler makes, and the definition that is stored.
\<close>

definition ex_learn_body :: json where
  "ex_learn_body =
    JObj [(''goal'', JStr ''extract title''), (''html_page_run_id'', JStr ''s1'')]"

definition ex_generated :: json where
  "ex_generated =
    JObj [(''etl_function_code'', JStr ''def extract(html): return {}''),
          (''entities_schema'', JObj [(''title'', JStr ''string'')])]"

definition ex_env_learn :: request_env where
  "ex_env_learn = ex_env\<lparr>fetch_result := FetchResponse 200 [] (Some ex_generated)\<rparr>"

definition ex_learn_call :: call where
  "ex_learn_call =
    (''http://scraper/pages/learn-etl'',
     JObj [(''url'', JStr ''https://a.example/''), (''html'', JStr ''<html>A</html>''),
           (''html_compressed'', JBool True), (''goal'', JStr ''extract title'')])"

definition ex_learned :: jsobject where
  "ex_learned =
    [(''id'', JStr ''n1''), (''user_id'', JStr ''u1''), (''page_id'', JStr ''p1''),
     (''created_at'', JStr ''t3''), (''etl_name'', JNull), (''goal'', JStr ''extract title''),
     (''src_code'', JStr ''def extract(html): return {}''),
     (''html_page_run_id'', JStr ''s1''),
     (''output_json_schema'', JObj [(''title'', JStr ''string'')])]"

text \<open>The same request when the insert fails, and when the service answers with status 502.\<close>

definition ex_env_learn_dbfail :: request_env where
  "ex_env_learn_dbfail =
    ex_env_learn\<lparr>db_env := \<lparr>uuid = ''n1'', now = ''t3'',
                              failure = Some ''connection terminated''\<rparr>\<rparr>"

definition ex_env_learn_502 :: request_env where
  "ex_env_learn_502 = ex_env\<lparr>fetch_result := FetchResponse 502 ''Bad Gateway'' None\<rparr>"

text \<open>The same request when the service answers with a blank extraction function.\<close>

definition ex_env_learn_blank :: request_env where
  "ex_env_learn_blank =
    ex_env\<lparr>fetch_result :=
      FetchResponse 200 [] (Some (JObj [(''etl_function_code'', JStr '' '')]))\<rparr>"

text \<open>The run that the second of the two requests stores.\<close>

definition ex_run2 :: jsobject where
  "ex_run2 =
    [(''id'', JStr ''n2''), (''user_id'', JStr ''u1''), (''html'', JStr ''s1''),
     (''etl_id'', JStr ''d1''), (''created_at'', JStr ''t4''),
     (''output_json'', JObj [(''title'', JStr ''x'')])]"

text \<open>
  The same two requests when the \<open>fetch\<close> of the first throws and the second is
  answered with status 500.
\<close>

definition ex_system_failing :: system where
  "ex_system_failing =
    \<lparr>sys_db = ex_db, sys_calls = [],
     sys_threads =
       [(ex_env\<lparr>fetch_result := FetchThrows None\<rparr>,
         Waiting ''p1'' ''d1'' (Some (JObj [(''html_run_id'', JStr ''s1'')]))),
        (ex_env\<lparr>fetch_result := FetchResponse 500 [] None\<rparr>,
         Waiting ''p1'' ''d1'' (Some (JObj [(''html_run_id'', JStr ''s1'')])))]\<rparr>"

section \<open>Properties of the handlers\<close>

lemmas ex_defs =
  ex_page1_def ex_page2_def ex_snap1_def ex_snap2_def ex_def1_def ex_def0_def ex_db_def
  ex_env_def ex_env2_def

lemmas query_defs = select_single_def single_def matches_def project_def get_html_run_def

lemmas insert_defs =
  insert_row_def complete_row_def html_columns_def etl_columns_def etl_run_columns_def

lemma ex_page1_found:
  "select_single [(''id'', JStr ''p1''), (''user_id'', JStr ''u1'')] (pages ex_db) = Some ex_page1"
  by (simp add: ex_defs query_defs)

lemma ex_validate:
  "POST_run_validate (ex_env\<lparr>fetch_result := f, db_env := e\<rparr>) (ex_db\<lparr>etl_run := rs\<rparr>)
     ''p1'' ''d1'' (Some (JObj [(''html_run_id'', JStr ''s1'')])) = Inr ex_ctx"
  by (simp add: POST_run_validate_def ex_defs query_defs still_training_def trim_def
      js_whitespace_def env_url_def opt_field_def ex_ctx_def)

subsection \<open>Running a definition that is still being trained\<close>

text \<open>
  Claim C4. A request to run a definition that has not finished training (its source
  code is missing, empty or blank) is answered with the "still being trained" error,
  and the scraping service is not called: the list of calls is empty and the database
  is the one before the request. The request is that of the authenticated owner, on
  the page of the definition.
\<close>

theorem execute_pending_is_not_ready:
  assumes "auth_user env = Some uid"
    and "select_single [(''id'', JStr pageId), (''user_id'', JStr uid)] (pages d) = Some page_row"
    and "select_single
           [(''id'', JStr etlId), (''page_id'', JStr pageId), (''user_id'', JStr uid)] (etl d)
         = Some etlConfig"
    and "still_training (map_of etlConfig ''src_code'') = Some True"
  shows "POST_run env d pageId etlId reqBody = (not_ready_response, d, [])"
  using assms by (simp add: POST_run_def POST_run_validate_def)

theorem execute_pending_is_not_ready_witness:
  "auth_user ex_env = Some ''u1''
   \<and> select_single [(''id'', JStr ''p1''), (''user_id'', JStr ''u1'')] (pages ex_db)
       = Some ex_page1
   \<and> select_single
         [(''id'', JStr ''d0''), (''page_id'', JStr ''p1''), (''user_id'', JStr ''u1'')]
         (etl ex_db) = Some ex_def0
   \<and> still_training (map_of ex_def0 ''src_code'') = Some True
   \<and> POST_run ex_env ex_db ''p1'' ''d0'' None = (not_ready_response, ex_db, [])"
proof -
  have a: "auth_user ex_env = Some ''u1''"
    by (simp add: ex_env_def)
  have e: "select_single
             [(''id'', JStr ''d0''), (''page_id'', JStr ''p1''), (''user_id'', JStr ''u1'')]
             (etl ex_db) = Some ex_def0"
    by (simp add: ex_defs query_defs)
  have t: "still_training (map_of ex_def0 ''src_code'') = Some True"
    by (simp add: ex_def0_def still_training_def)
  from execute_pending_is_not_ready [OF a ex_page1_found e t] a ex_page1_found e t
  show ?thesis by simp
qed

subsection \<open>A failed execution call\<close>

lemma POST_run_complete_failed:
  assumes "collaborator_failed (fetch_result env)"
  shows "snd (POST_run_complete env d ctx) = d"
    and "fst (fst (POST_run_complete env d ctx)) \<in> {500, 503}"
  using assms
  by (auto simp: POST_run_complete_def collaborator_failed_def error_response_def
      internal_server_error_def split: fetch_result.splits)

text \<open>
  Claim C3. When a run request reaches the execution call and the call fails (the
  \<open>fetch\<close> throws, the status is not a success status, or the body is not JSON), the
  database after the request is the database before it, so no run is stored and the
  run history is unchanged; the caller gets an error answer (status 500 or 503); and
  the call that failed is the only call made: there is no retry.
\<close>

theorem execute_failure_persists_nothing:
  assumes "POST_run_validate env d pageId etlId reqBody = Inr ctx"
    and "collaborator_failed (fetch_result env)"
  shows "\<exists>r. POST_run env d pageId etlId reqBody = (r, d, [ctx_call ctx]) \<and> fst r \<in> {500, 503}"
  using assms(1) POST_run_complete_failed [OF assms(2), of d ctx]
  by (auto simp: POST_run_def split: prod.splits)

theorem execute_failure_persists_nothing_witness:
  "POST_run_validate (ex_env\<lparr>fetch_result := FetchThrows None\<rparr>) ex_db ''p1'' ''d1''
     (Some (JObj [(''html_run_id'', JStr ''s1'')])) = Inr ex_ctx
   \<and> collaborator_failed (fetch_result (ex_env\<lparr>fetch_result := FetchThrows None\<rparr>))
   \<and> (\<exists>r. POST_run (ex_env\<lparr>fetch_result := FetchThrows None\<rparr>) ex_db ''p1'' ''d1''
              (Some (JObj [(''html_run_id'', JStr ''s1'')])) = (r, ex_db, [ctx_call ex_ctx])
            \<and> fst r \<in> {500, 503})"
proof -
  have v: "POST_run_validate (ex_env\<lparr>fetch_result := FetchThrows None\<rparr>) ex_db ''p1'' ''d1''
             (Some (JObj [(''html_run_id'', JStr ''s1'')])) = Inr ex_ctx"
    using ex_validate [where f = "FetchThrows None" and e = "db_env ex_env" and rs = "etl_run ex_db"]
    by simp
  have f: "collaborator_failed (fetch_result (ex_env\<lparr>fetch_result := FetchThrows None\<rparr>))"
    by (simp add: collaborator_failed_def)
  from execute_failure_persists_nothing [OF v f] v f show ?thesis by simp
qed

subsection \<open>Facts about queries and inserts\<close>

lemma falsy_value_no_html: "\<not> truthy (Some j) \<Longrightarrow> get_prop j k = None"
  by (cases j) auto

lemma truthy_not_null: "truthy (Some v) \<Longrightarrow> v \<noteq> JNull"
  by (cases v) auto

lemma insert_row_Inr:
  assumes "insert_row cols e rows r = Inr (r', rows')"
  shows "rows' = rows @ [r']" and "r' = complete_row cols e r"
    and "map_of r' ''id'' \<notin> set (map (\<lambda>x. map_of x ''id'') rows)"
    and "failure e = None"
  using assms
  by (auto simp: insert_row_def Let_def split: option.splits list.splits if_splits)

lemma insert_row_appends:
  "insert_row cols e rows r = Inr (a, b) \<Longrightarrow>
   b = rows @ [a] \<and> map_of a ''id'' \<notin> set (map (\<lambda>x. map_of x ''id'') rows)"
  by (auto simp: insert_row_def Let_def split: option.splits list.splits if_splits)

lemma select_single_new:
  assumes "\<forall>x \<in> set rows. \<not> matches conds x" and "matches conds r"
  shows "select_single conds (rows @ [r]) = Some r"
proof -
  have "filter (matches conds) rows = []" using assms(1) by (simp add: filter_empty_conv)
  then show ?thesis using assms(2) by (simp add: select_single_def single_def)
qed

lemma select_single_Some:
  assumes "select_single conds rows = Some r"
  shows "r \<in> set rows" and "matches conds r"
proof -
  from assms have "filter (matches conds) rows = [r]"
    by (auto simp: select_single_def single_def split: list.splits)
  then have "r \<in> set (filter (matches conds) rows)" by simp
  then show "r \<in> set rows" and "matches conds r" by auto
qed

lemma select_single_append_other:
  assumes "\<not> matches conds r"
  shows "select_single conds (rows @ [r]) = select_single conds rows"
  using assms by (simp add: select_single_def)

subsection \<open>The tables each handler leaves alone\<close>

lemma POST_run_complete_tables:
  "html (snd (POST_run_complete env d ctx)) = html d"
  "etl (snd (POST_run_complete env d ctx)) = etl d"
  "pages (snd (POST_run_complete env d ctx)) = pages d"
  by (auto simp: POST_run_complete_def split: fetch_result.splits option.splits sum.splits)

lemma POST_run_Inr:
  "POST_run_validate env d pageId etlId b = Inr ctx \<Longrightarrow>
   POST_run env d pageId etlId b
     = (fst (POST_run_complete env d ctx), snd (POST_run_complete env d ctx), [ctx_call ctx])"
  by (simp add: POST_run_def split: prod.splits)

lemma POST_run_Inl:
  "POST_run_validate env d pageId etlId b = Inl r \<Longrightarrow> POST_run env d pageId etlId b = (r, d, [])"
  by (simp add: POST_run_def)

lemma POST_run_tables:
  "html (fst (snd (POST_run env d pageId etlId b))) = html d"
  "etl (fst (snd (POST_run env d pageId etlId b))) = etl d"
  "pages (fst (snd (POST_run env d pageId etlId b))) = pages d"
  by (cases "POST_run_validate env d pageId etlId b";
      simp add: POST_run_Inl POST_run_Inr POST_run_complete_tables)+

lemma POST_learn_complete_tables:
  "html (snd (POST_learn_complete env d uid pageId goal hid)) = html d"
  "etl_run (snd (POST_learn_complete env d uid pageId goal hid)) = etl_run d"
  "pages (snd (POST_learn_complete env d uid pageId goal hid)) = pages d"
  by (auto simp: POST_learn_complete_def split: option.splits fetch_result.splits sum.splits)

lemma POST_learn_tables:
  "html (fst (snd (POST_learn env d pageId b))) = html d"
  "etl_run (fst (snd (POST_learn env d pageId b))) = etl_run d"
  "pages (fst (snd (POST_learn env d pageId b))) = pages d"
  by (auto simp: POST_learn_def POST_learn_complete_tables case_prod_beta
      split: option.splits json.splits)

lemma POST_etl_tables:
  "html (fst (snd (POST_etl env d pageId b))) = html d"
  "etl_run (fst (snd (POST_etl env d pageId b))) = etl_run d"
  "pages (fst (snd (POST_etl env d pageId b))) = pages d"
  by (auto simp: POST_etl_def Let_def
      split: option.splits fetch_result.splits sum.splits json.splits)

lemma POST_html_tables:
  "etl (fst (snd (POST_html env d pageId))) = etl d"
  "etl_run (fst (snd (POST_html env d pageId))) = etl_run d"
  "pages (fst (snd (POST_html env d pageId))) = pages d"
  by (auto simp: POST_html_def Let_def
      split: option.splits fetch_result.splits sum.splits json.splits)

lemma POST_html_html:
  "html (fst (snd (POST_html env d pageId))) = html d
   \<or> (\<exists>row. html (fst (snd (POST_html env d pageId))) = html d @ [row]
            \<and> map_of row ''id'' \<notin> set (map (\<lambda>x. map_of x ''id'') (html d)))"
  by (auto simp: POST_html_def Let_def dest!: insert_row_appends
      split: option.splits fetch_result.splits sum.splits json.splits)

lemma get_html_run_append:
  assumes "get_html_run d hid pageId uid = Some row"
    and "html d' = html d @ [new]"
    and "map_of new ''id'' \<notin> set (map (\<lambda>x. map_of x ''id'') (html d))"
  shows "get_html_run d' hid pageId uid = Some row"
proof -
  let ?conds = "[(''id'', hid), (''page_id'', JStr pageId), (''user_id'', JStr uid)]"
  from assms(1) have "row \<in> set (html d)" and "matches ?conds row"
    unfolding get_html_run_def by (rule select_single_Some)+
  then have "Some hid \<in> set (map (\<lambda>x. map_of x ''id'') (html d))"
    by (force simp: matches_def)
  with assms(3) have "map_of new ''id'' \<noteq> Some hid" by auto
  then have "\<not> matches ?conds new" by (simp add: matches_def)
  then show ?thesis
    using assms(1,2) by (simp add: get_html_run_def select_single_append_other)
qed

lemma get_html_run_same:
  "html d' = html d \<Longrightarrow> get_html_run d' hid pageId uid = get_html_run d hid pageId uid"
  by (simp add: get_html_run_def)

lemma get_html_run_apply_operation:
  assumes "get_html_run d hid pageId uid = Some row"
  shows "get_html_run (apply_operation x d) hid pageId uid = Some row"
proof (cases x)
  case (Capture env p)
  from POST_html_html [of env d p] show ?thesis
  proof
    assume "html (fst (snd (POST_html env d p))) = html d"
    from get_html_run_same [OF this] show ?thesis using assms Capture by simp
  next
    assume "\<exists>row. html (fst (snd (POST_html env d p))) = html d @ [row]
            \<and> map_of row ''id'' \<notin> set (map (\<lambda>x. map_of x ''id'') (html d))"
    then obtain new where "html (fst (snd (POST_html env d p))) = html d @ [new]"
      and "map_of new ''id'' \<notin> set (map (\<lambda>x. map_of x ''id'') (html d))"
      by blast
    from get_html_run_append [OF assms this] show ?thesis using Capture by simp
  qed
next
  case (Learn env p b)
  from get_html_run_same [OF POST_learn_tables(1)] show ?thesis using assms Learn by simp
next
  case (Create env p b)
  from get_html_run_same [OF POST_etl_tables(1)] show ?thesis using assms Create by simp
next
  case (Execute env p e b)
  from get_html_run_same [OF POST_run_tables(1)] show ?thesis using assms Execute by simp
qed

lemma get_html_run_apply_operations:
  "get_html_run d hid pageId uid = Some row \<Longrightarrow>
   get_html_run (apply_operations ops d) hid pageId uid = Some row"
  unfolding apply_operations_def
  by (induction ops arbitrary: d) (simp_all add: get_html_run_apply_operation)

subsection \<open>Snapshots\<close>

lemma POST_html_no_html_no_write:
  assumes "\<not> truthy (fetched_html (fetch_result env))"
  shows "fst (snd (POST_html env d pageId)) = d \<and> fst (fst (POST_html env d pageId)) \<noteq> 201"
  using assms
  by (auto simp: POST_html_def fetched_html_def error_response_def internal_server_error_def
      no_html_response_def ok_def Let_def
      split: option.splits fetch_result.splits sum.splits)

lemma POST_html_created:
  assumes "POST_html env d pageId = ((201, body), d', calls)"
  shows "\<exists>uid page_row st txt htmlData htmlv row.
      auth_user env = Some uid
      \<and> select_single [(''id'', JStr pageId), (''user_id'', JStr uid)] (pages d) = Some page_row
      \<and> fetch_result env = FetchResponse st txt (Some htmlData)
      \<and> ok st
      \<and> get_prop htmlData ''html'' = Some htmlv
      \<and> truthy (Some htmlv)
      \<and> insert_row html_columns (db_env env) (html d)
            (html_payload env pageId uid (project [''id'', ''url''] page_row) st htmlData htmlv)
          = Inr (row, html d @ [row])
      \<and> d' = d\<lparr>html := html d @ [row]\<rparr>
      \<and> body = JObj [(''data'', JObj row),
                      (''message'', JStr ''HTML fetched and saved successfully'')]"
  using assms
  by (auto simp: POST_html_def error_response_def internal_server_error_def
      no_html_response_def ok_def Let_def dest: insert_row_Inr(1)
      split: option.splits fetch_result.splits sum.splits if_splits)

lemma html_row_props:
  "map_of (complete_row html_columns e (html_payload env pageId uid page st htmlData htmlv)) ''id''
     = Some (JStr (uuid e))"
  "map_of (complete_row html_columns e (html_payload env pageId uid page st htmlData htmlv)) ''html''
     = Some htmlv"
  "map_of (complete_row html_columns e (html_payload env pageId uid page st htmlData htmlv)) ''page_id''
     = Some (JStr pageId)"
  "map_of (complete_row html_columns e (html_payload env pageId uid page st htmlData htmlv)) ''user_id''
     = Some (JStr uid)"
  by (simp_all add: complete_row_def html_columns_def html_payload_def)

lemma POST_html_created_roundtrip:
  assumes "POST_html env d pageId = ((201, body), d', calls)"
    and "auth_user env = Some uid"
  shows "\<exists>row hid. body = JObj [(''data'', JObj row), (''message'', JStr ''HTML fetched and saved successfully'')]
      \<and> html d' = html d @ [row]
      \<and> map_of row ''id'' = Some hid
      \<and> get_html_run d' hid pageId uid = Some row
      \<and> map_of row ''html'' = fetched_html (fetch_result env)
      \<and> truthy (fetched_html (fetch_result env))"
proof -
  from POST_html_created [OF assms(1)] assms(2)
  obtain page_row st tx htmlData htmlv row where
    f: "fetch_result env = FetchResponse st tx (Some htmlData)"
    and h: "get_prop htmlData ''html'' = Some htmlv" "truthy (Some htmlv)"
    and i: "insert_row html_columns (db_env env) (html d)
            (html_payload env pageId uid (project [''id'', ''url''] page_row) st htmlData htmlv)
          = Inr (row, html d @ [row])"
    and d': "d' = d\<lparr>html := html d @ [row]\<rparr>"
    and b: "body = JObj [(''data'', JObj row),
                      (''message'', JStr ''HTML fetched and saved successfully'')]"
    by auto
  note r = insert_row_Inr(2) [OF i]
  note new = insert_row_Inr(3) [OF i]
  have id: "map_of row ''id'' = Some (JStr (uuid (db_env env)))"
    and ht: "map_of row ''html'' = Some htmlv"
    and pg: "map_of row ''page_id'' = Some (JStr pageId)"
    and us: "map_of row ''user_id'' = Some (JStr uid)"
    unfolding r by (rule html_row_props)+
  let ?conds = "[(''id'', JStr (uuid (db_env env))), (''page_id'', JStr pageId), (''user_id'', JStr uid)]"
  have m: "matches ?conds row"
    by (simp add: matches_def id pg us)
  have n: "\<forall>x \<in> set (html d). \<not> matches ?conds x"
    using new by (force simp: matches_def id image_iff)
  have "get_html_run d' (JStr (uuid (db_env env))) pageId uid = Some row"
    unfolding get_html_run_def d' using select_single_new [OF n m] by simp
  then show ?thesis
    using b d' id ht h f by (simp add: fetched_html_def)
qed

lemma insert_html_succeeds:
  assumes "failure e = None"
    and "Some (JStr (uuid e)) \<notin> set (map (\<lambda>x. map_of x ''id'') rows)"
    and "truthy (Some htmlv)"
  shows "insert_row html_columns e rows (html_payload env pageId uid page st htmlData htmlv)
         = Inr (complete_row html_columns e (html_payload env pageId uid page st htmlData htmlv),
                rows @ [complete_row html_columns e (html_payload env pageId uid page st htmlData htmlv)])"
  using assms truthy_not_null [OF assms(3)]
  by (simp add: insert_row_def html_columns_def html_payload_def complete_row_def Let_def)

lemma POST_html_succeeds:
  assumes "auth_user env = Some uid"
    and "select_single [(''id'', JStr pageId), (''user_id'', JStr uid)] (pages d) = Some page_row"
    and "fetch_result env = FetchResponse st tx (Some htmlData)"
    and "ok st"
    and "get_prop htmlData ''html'' = Some htmlv"
    and "truthy (Some htmlv)"
    and "failure (db_env env) = None"
    and "Some (JStr (uuid (db_env env))) \<notin> set (map (\<lambda>x. map_of x ''id'') (html d))"
  shows "\<exists>body d' c. POST_html env d pageId = ((201, body), d', [c])"
proof -
  have "truthy (Some htmlData)"
    using assms(5) falsy_value_no_html [of htmlData "''html''"] by auto
  then show ?thesis
    using assms insert_html_succeeds [OF assms(7,8,6)]
    by (simp add: POST_html_def Let_def)
qed

text \<open>
  Claim C9 as stated fails on the code: the answer to an empty \<open>html\<close> is not an
  invalid-input answer. It has status 500, the status with which the same handler
  answers when the scraping service cannot be reached, whereas the handlers answer a
  request that lacks a required field with status 400 ("Goal is required").
\<close>

theorem empty_html_answer_is_a_server_error:
  "POST_html ex_env_empty ex_db ''p1''
     = (no_html_response (JObj [(''html'', JStr [])]), ex_db,
        [(''http://scraper/pages/get-html'',
          JObj [(''url'', JStr ''https://a.example/''), (''format'', JStr ''json'')])])
   \<and> fst (no_html_response (JObj [(''html'', JStr [])])) = 500
   \<and> POST_html (ex_env\<lparr>fetch_result := FetchThrows None\<rparr>) ex_db ''p1''
       = (error_response 500 ''Internal server error'', ex_db,
          [(''http://scraper/pages/get-html'',
            JObj [(''url'', JStr ''https://a.example/''), (''format'', JStr ''json'')])])
   \<and> POST_etl ex_env ex_db ''p1'' (Some (JObj [(''html_page_run_id'', JStr ''s1'')]))
       = (error_response 400 ''Goal is required'', ex_db, [])
   \<and> POST_learn ex_env ex_db ''p1'' (Some (JObj [(''html_page_run_id'', JStr ''s1'')]))
       = (error_response 400 ''Goal is required'', ex_db, [])"
  by (simp add: POST_html_def POST_etl_def POST_learn_def ex_env_empty_def ex_env_def
      ex_page1_found ok_def no_html_response_def internal_server_error_def env_url_def
      opt_field_def project_def ex_page1_def)

text \<open>
  Claim C9, amended. When the scraper's answer has no \<open>html\<close>, or an empty one, the
  capture request is rejected and the database is left as it was: no snapshot is
  stored. The answer is the "No HTML data returned from the scraper" error, which
  carries what was received and has status 500. The request is that of an
  authenticated owner of the page, and the scraper has answered with a success
  status and a JSON body.
\<close>

theorem snapshot_without_html_rejected:
  assumes "auth_user env = Some uid"
    and "select_single [(''id'', JStr pageId), (''user_id'', JStr uid)] (pages d) = Some page_row"
    and "fetch_result env = FetchResponse st tx (Some htmlData)"
    and "ok st"
    and "\<not> truthy (get_prop htmlData ''html'')"
  shows "(\<exists>c. POST_html env d pageId = (no_html_response htmlData, d, [c]))
         \<and> no_html_response htmlData
             = (500, JObj [(''error'', JStr ''No HTML data returned from the scraper''),
                           (''received'', htmlData)])"
  using assms by (auto simp: POST_html_def Let_def no_html_response_def split: option.splits)

theorem snapshot_without_html_rejected_witness:
  "auth_user ex_env_empty = Some ''u1''
   \<and> select_single [(''id'', JStr ''p1''), (''user_id'', JStr ''u1'')] (pages ex_db)
       = Some ex_page1
   \<and> fetch_result ex_env_empty = FetchResponse 200 [] (Some (JObj [(''html'', JStr [])]))
   \<and> ok 200
   \<and> \<not> truthy (get_prop (JObj [(''html'', JStr [])]) ''html'')
   \<and> (\<exists>c. POST_html ex_env_empty ex_db ''p1''
            = (no_html_response (JObj [(''html'', JStr [])]), ex_db, [c]))
   \<and> no_html_response (JObj [(''html'', JStr [])])
       = (500, JObj [(''error'', JStr ''No HTML data returned from the scraper''),
                     (''received'', JObj [(''html'', JStr [])])])"
proof -
  have a: "auth_user ex_env_empty = Some ''u1''"
    by (simp add: ex_env_empty_def ex_env_def)
  have f: "fetch_result ex_env_empty = FetchResponse 200 [] (Some (JObj [(''html'', JStr [])]))"
    by (simp add: ex_env_empty_def)
  have k: "ok 200"
    by (simp add: ok_def)
  have h: "\<not> truthy (get_prop (JObj [(''html'', JStr [])]) ''html'')"
    by simp
  from snapshot_without_html_rejected [OF a ex_page1_found f k h] a ex_page1_found f k h
  show ?thesis by blast
qed

text \<open>
  Claim C8. A capture request of an authenticated owner of the page, for which the
  scraper has answered with a non-empty \<open>html\<close> and the insert meets no failure,
  stores a snapshot whose \<open>html\<close> is the value that was fetched, unchanged. Reading
  the snapshot back by its identifier, page and user returns that very row, directly
  after the capture and after any further sequence of capture, learn, create and run
  requests: no handler modifies a stored snapshot.
\<close>

theorem snapshot_roundtrip:
  assumes "auth_user env = Some uid"
    and "select_single [(''id'', JStr pageId), (''user_id'', JStr uid)] (pages d) = Some page_row"
    and "fetch_result env = FetchResponse st tx (Some htmlData)"
    and "ok st"
    and "get_prop htmlData ''html'' = Some htmlv"
    and "truthy (Some htmlv)"
    and "failure (db_env env) = None"
    and "Some (JStr (uuid (db_env env))) \<notin> set (map (\<lambda>x. map_of x ''id'') (html d))"
  shows "\<exists>body d' c row hid.
           POST_html env d pageId = ((201, body), d', [c])
           \<and> get_prop body ''data'' = Some (JObj row)
           \<and> map_of row ''id'' = Some hid
           \<and> map_of row ''html'' = Some htmlv
           \<and> (\<forall>ops. get_html_run (apply_operations ops d') hid pageId uid = Some row)"
proof -
  from POST_html_succeeds [OF assms] obtain body d' c
    where p: "POST_html env d pageId = ((201, body), d', [c])" by blast
  from POST_html_created_roundtrip [OF p assms(1)] obtain row hid where
    "body = JObj [(''data'', JObj row), (''message'', JStr ''HTML fetched and saved successfully'')]"
    "map_of row ''id'' = Some hid" "get_html_run d' hid pageId uid = Some row"
    "map_of row ''html'' = fetched_html (fetch_result env)"
    by blast
  then show ?thesis
    using p assms(3,5) get_html_run_apply_operations [of d' hid pageId uid row]
    by (auto simp: fetched_html_def)
qed

theorem snapshot_roundtrip_witness:
  "auth_user ex_env_capture = Some ''u1''
   \<and> select_single [(''id'', JStr ''p1''), (''user_id'', JStr ''u1'')] (pages ex_db)
       = Some ex_page1
   \<and> fetch_result ex_env_capture = FetchResponse 200 [] (Some ex_scraped)
   \<and> ok 200
   \<and> get_prop ex_scraped ''html'' = Some (JStr ''<html>C</html>'')
   \<and> truthy (Some (JStr ''<html>C</html>''))
   \<and> failure (db_env ex_env_capture) = None
   \<and> Some (JStr (uuid (db_env ex_env_capture)))
       \<notin> set (map (\<lambda>x. map_of x ''id'') (html ex_db))
   \<and> (\<exists>body d' c row hid.
         POST_html ex_env_capture ex_db ''p1'' = ((201, body), d', [c])
         \<and> get_prop body ''data'' = Some (JObj row)
         \<and> map_of row ''id'' = Some hid
         \<and> map_of row ''html'' = Some (JStr ''<html>C</html>'')
         \<and> (\<forall>ops. get_html_run (apply_operations ops d') hid ''p1'' ''u1'' = Some row))"
proof -
  have a: "auth_user ex_env_capture = Some ''u1''"
    by (simp add: ex_env_capture_def ex_env_def)
  have f: "fetch_result ex_env_capture = FetchResponse 200 [] (Some ex_scraped)"
    by (simp add: ex_env_capture_def)
  have k: "ok 200"
    by (simp add: ok_def)
  have h: "get_prop ex_scraped ''html'' = Some (JStr ''<html>C</html>'')"
    by (simp add: ex_scraped_def)
  have t: "truthy (Some (JStr ''<html>C</html>''))"
    by simp
  have n: "failure (db_env ex_env_capture) = None"
    by (simp add: ex_env_capture_def ex_env_def)
  have u: "Some (JStr (uuid (db_env ex_env_capture)))
             \<notin> set (map (\<lambda>x. map_of x ''id'') (html ex_db))"
    by (simp add: ex_env_capture_def ex_defs)
  from snapshot_roundtrip [OF a ex_page1_found f k h t n u] a ex_page1_found f k h t n u
  show ?thesis by blast
qed

subsection \<open>Creating a definition without the generation service\<close>

lemma insert_row_not_null:
  assumes "insert_row cols e rows r = Inr (r', rows')" and "(k, True, dflt) \<in> set cols"
  shows "map_of r' k \<noteq> Some JNull"
proof -
  from assms(1) have "filter (\<lambda>c. fst (snd c) \<and> map_of r' (fst c) = Some JNull) cols = []"
    by (auto simp: insert_row_def Let_def split: option.splits list.splits if_splits)
  then have "\<forall>c \<in> set cols. \<not> (fst (snd c) \<and> map_of r' (fst c) = Some JNull)"
    by (simp add: filter_empty_conv)
  with assms(2) show ?thesis by force
qed

lemma truthy_prop_is_object: "truthy (get_prop body k) \<Longrightarrow> \<exists>kvs. body = JObj kvs"
  by (cases body) auto

lemma map_of_etlData:
  "map_of (etlData body pageId uid)
   = (map_of (spread body))(''page_id'' \<mapsto> JStr pageId, ''user_id'' \<mapsto> JStr uid)"
  by (simp add: etlData_def update_conv')

lemma POST_etl_no_call: "snd (snd (POST_etl env d pageId b)) = []"
  by (auto simp: POST_etl_def Let_def split: option.splits sum.splits)

lemma etl_row_column:
  assumes "insert_row etl_columns e rows (etlData body pageId uid) = Inr (row, rows')"
    and "truthy (get_prop body ''goal'')"
  shows "map_of row ''src_code'' = get_prop body ''src_code''"
    and "map_of row ''goal'' = get_prop body ''goal''"
    and "map_of row ''html_page_run_id'' = get_prop body ''html_page_run_id''"
    and "map_of row ''page_id'' = Some (JStr pageId)"
    and "map_of row ''user_id'' = Some (JStr uid)"
proof -
  from truthy_prop_is_object [OF assms(2)] obtain kvs where b: "body = JObj kvs" by blast
  have r: "row = complete_row etl_columns e (etlData body pageId uid)"
    using insert_row_Inr(2) [OF assms(1)] .
  have n1: "map_of row ''src_code'' \<noteq> Some JNull"
    by (rule insert_row_not_null [OF assms(1)]) (simp add: etl_columns_def)
  have n2: "map_of row ''goal'' \<noteq> Some JNull"
    by (rule insert_row_not_null [OF assms(1)]) (simp add: etl_columns_def)
  have n3: "map_of row ''html_page_run_id'' \<noteq> Some JNull"
    by (rule insert_row_not_null [OF assms(1)]) (simp add: etl_columns_def)
  show "map_of row ''src_code'' = get_prop body ''src_code''"
    using n1 unfolding r
    by (simp add: complete_row_def etl_columns_def map_of_etlData b spread_def split: option.splits)
  show "map_of row ''goal'' = get_prop body ''goal''"
    using n2 unfolding r
    by (simp add: complete_row_def etl_columns_def map_of_etlData b spread_def split: option.splits)
  show "map_of row ''html_page_run_id'' = get_prop body ''html_page_run_id''"
    using n3 unfolding r
    by (simp add: complete_row_def etl_columns_def map_of_etlData b spread_def split: option.splits)
  show "map_of row ''page_id'' = Some (JStr pageId)"
    unfolding r by (simp add: complete_row_def etl_columns_def map_of_etlData)
  show "map_of row ''user_id'' = Some (JStr uid)"
    unfolding r by (simp add: complete_row_def etl_columns_def map_of_etlData)
qed

text \<open>
  Claim C10. The direct create route never calls the scraping service: the list of calls
  is empty for every request. For a request of an authenticated owner of the page whose
  body names a goal and a snapshot of that page, the payload handed to the insert is the
  body's own properties with \<open>page_id\<close> and \<open>user_id\<close> set from the route and the
  session. When the insert fails the answer is a 400 with the database's message and
  nothing is stored; when it succeeds exactly one row is appended to the definitions,
  whose source code, goal and snapshot are the caller's. So a definition can be stored
  whose code did not come from the generation service.
\<close>

theorem direct_create_takes_body_verbatim:
  assumes "auth_user env = Some uid"
    and "select_single [(''id'', JStr pageId), (''user_id'', JStr uid)] (pages d) = Some page_row"
    and "truthy (get_prop body ''goal'')"
    and "get_prop body ''html_page_run_id'' = Some hid"
    and "truthy (Some hid)"
    and "get_html_run d hid pageId uid = Some html_row"
  shows "(\<forall>env' d0 p b. snd (snd (POST_etl env' d0 p b)) = [])
    \<and> map_of (etlData body pageId uid)
        = (map_of (spread body))(''page_id'' \<mapsto> JStr pageId, ''user_id'' \<mapsto> JStr uid)
    \<and> (case insert_row etl_columns (db_env env) (etl d) (etlData body pageId uid) of
          Inl e \<Rightarrow> POST_etl env d pageId (Some body) = (error_response 400 (message e), d, [])
        | Inr (row, rows') \<Rightarrow>
            POST_etl env d pageId (Some body)
              = ((201, JObj [(''data'', JObj row),
                             (''message'', JStr ''ETL configuration created successfully'')]),
                 d\<lparr>etl := etl d @ [row]\<rparr>, [])
            \<and> row = complete_row etl_columns (db_env env) (etlData body pageId uid)
            \<and> map_of row ''src_code'' = get_prop body ''src_code''
            \<and> map_of row ''goal'' = get_prop body ''goal''
            \<and> map_of row ''html_page_run_id'' = Some hid
            \<and> map_of row ''page_id'' = Some (JStr pageId)
            \<and> map_of row ''user_id'' = Some (JStr uid))"
proof -
  have nn: "body \<noteq> JNull" using assms(3) by auto
  have p: "POST_etl env d pageId (Some body)
      = (case insert_row etl_columns (db_env env) (etl d) (etlData body pageId uid) of
           Inl e \<Rightarrow> (error_response 400 (message e), d, [])
         | Inr (row, rows') \<Rightarrow>
             ((201, JObj [(''data'', JObj row),
                          (''message'', JStr ''ETL configuration created successfully'')]),
              d\<lparr>etl := rows'\<rparr>, []))"
    using assms nn by (simp add: POST_etl_def)
  show ?thesis
  proof (cases "insert_row etl_columns (db_env env) (etl d) (etlData body pageId uid)")
    case (Inl e)
    then show ?thesis using p by (simp add: POST_etl_no_call map_of_etlData)
  next
    case (Inr x)
    obtain row rows' where x: "x = (row, rows')" by (cases x)
    note i = Inr [unfolded x]
    from insert_row_Inr(1,2) [OF i] etl_row_column [OF i assms(3)] assms(4) p i
    show ?thesis by (simp add: POST_etl_no_call map_of_etlData)
  qed
qed

theorem direct_create_takes_body_verbatim_witness:
  "auth_user ex_env = Some ''u1''
   \<and> select_single [(''id'', JStr ''p1''), (''user_id'', JStr ''u1'')] (pages ex_db)
       = Some ex_page1
   \<and> truthy (get_prop ex_create_body ''goal'')
   \<and> get_prop ex_create_body ''html_page_run_id'' = Some (JStr ''s1'')
   \<and> truthy (Some (JStr ''s1''))
   \<and> get_html_run ex_db (JStr ''s1'') ''p1'' ''u1'' = Some ex_snap1
   \<and> POST_etl ex_env ex_db ''p1'' (Some ex_create_body)
       = ((201, JObj [(''data'', JObj ex_created),
                      (''message'', JStr ''ETL configuration created successfully'')]),
          ex_db\<lparr>etl := etl ex_db @ [ex_created]\<rparr>, [])
   \<and> map_of ex_created ''src_code'' = get_prop ex_create_body ''src_code''"
proof -
  have a: "auth_user ex_env = Some ''u1''"
    by (simp add: ex_env_def)
  have g: "truthy (get_prop ex_create_body ''goal'')"
    by (simp add: ex_create_body_def)
  have h: "get_prop ex_create_body ''html_page_run_id'' = Some (JStr ''s1'')"
    by (simp add: ex_create_body_def)
  have t: "truthy (Some (JStr ''s1''))"
    by simp
  have s: "get_html_run ex_db (JStr ''s1'') ''p1'' ''u1'' = Some ex_snap1"
    by (simp add: ex_defs query_defs)
  have i: "insert_row etl_columns (db_env ex_env) (etl ex_db)
             (etlData ex_create_body ''p1'' ''u1'')
           = Inr (ex_created, etl ex_db @ [ex_created])"
    by (simp add: ex_create_body_def ex_created_def ex_defs insert_defs etlData_def spread_def
        Let_def)
  from direct_create_takes_body_verbatim [OF a ex_page1_found g h t s]
  have "POST_etl ex_env ex_db ''p1'' (Some ex_create_body)
          = ((201, JObj [(''data'', JObj ex_created),
                         (''message'', JStr ''ETL configuration created successfully'')]),
             ex_db\<lparr>etl := etl ex_db @ [ex_created]\<rparr>, [])
        \<and> map_of ex_created ''src_code'' = get_prop ex_create_body ''src_code''"
    unfolding i by simp
  with a ex_page1_found g h t s show ?thesis by simp
qed

subsection \<open>Re-training\<close>

lemma retrain_insert_fails:
  "insert_row etl_columns e rows (etlData (retrain_body c g) pageId uid)
   = (case failure e of Some m \<Rightarrow> Inl (OtherFailure m) | None \<Rightarrow> Inl (NotNullViolation ''src_code''))"
  by (simp add: insert_row_def etlData_def retrain_body_def spread_def etl_columns_def
      complete_row_def Let_def split: option.splits)

lemma handleRetrain_never_creates:
  assumes "handleRetrain env d pageId c g = Some (r, d', calls)"
  shows "calls = [] \<and> d' = d \<and> fst r \<noteq> 201"
  using assms
  by (auto simp: handleRetrain_def POST_etl_def retrain_insert_fails error_response_def
      internal_server_error_def split: option.splits if_splits)

text \<open>
  Claim C7, evaluated on the code. Re-training the trained definition \<open>d1\<close> with the
  refinement "also extract price" posts the composed goal and the parent's snapshot to
  the direct create route. That route makes no call to the generation service, the
  posted body has no source code, and the insert is refused for the \<open>NOT NULL\<close> column
  \<open>src_code\<close>: the answer is a 400, no new definition exists, and the database (the
  parent included) is what it was.
\<close>

theorem retrain_posts_to_direct_create:
  "handleRetrain ex_env ex_db ''p1'' (Some ex_retrainConfig) ''also extract price''
   = Some (error_response 400 (message (NotNullViolation ''src_code'')), ex_db, [])
   \<and> retrain_body ex_retrainConfig ''also extract price''
       = JObj [(''goal'',
                  JStr (''extract title'' @ [CHR 0x0A, CHR 0x0A]
                        @ ''Refinement Goal: also extract price'')),
               (''html_page_run_id'', JStr ''s1''),
               (''etl_name'', JStr ''Untitled - Retrained'')]"
  by (simp add: handleRetrain_def POST_etl_def trim_def js_whitespace_def retrain_body_def
      ex_retrainConfig_def ex_defs query_defs insert_defs etlData_def spread_def message_def
      Let_def)

subsection \<open>What a run request does before and after its call\<close>

lemma POST_run_validate_Inr:
  assumes "POST_run_validate env d pageId etlId reqBody = Inr ctx"
  shows "\<exists>uid page_row hid.
      auth_user env = Some uid
      \<and> select_single [(''id'', JStr pageId), (''user_id'', JStr uid)] (pages d) = Some page_row
      \<and> select_single
           [(''id'', JStr etlId), (''page_id'', JStr pageId), (''user_id'', JStr uid)] (etl d)
          = Some (ctx_etl ctx)
      \<and> still_training (map_of (ctx_etl ctx) ''src_code'') = Some False
      \<and> get_html_run d hid pageId uid = Some (ctx_html_run ctx)
      \<and> ctx_user ctx = uid
      \<and> ctx_etl_id ctx = etlId"
  using assms
  by (auto simp: POST_run_validate_def Let_def get_html_run_def
      split: option.splits bool.splits if_splits sum.splits json.splits)

lemma POST_run_complete_created:
  assumes "POST_run_complete env d ctx = ((201, body), d')"
  shows "\<exists>st tx out run.
      fetch_result env = FetchResponse st tx (Some out)
      \<and> ok st
      \<and> insert_row etl_run_columns (db_env env) (etl_run d) (run_payload ctx out)
          = Inr (run, etl_run d @ [run])
      \<and> d' = d\<lparr>etl_run := etl_run d @ [run]\<rparr>"
  using assms
  by (auto simp: POST_run_complete_def error_response_def internal_server_error_def
      run_answer_def dest: insert_row_Inr(1)
      split: fetch_result.splits option.splits sum.splits if_splits)

lemma run_row_props:
  "map fst (complete_row etl_run_columns e (run_payload ctx out))
     = [''id'', ''user_id'', ''html'', ''etl_id'', ''created_at'', ''output_json'']"
  "map_of (complete_row etl_run_columns e (run_payload ctx out)) ''output_json'' = Some out"
  "map_of (complete_row etl_run_columns e (run_payload ctx out)) ''etl_id''
     = Some (JStr (ctx_etl_id ctx))"
  "map_of (complete_row etl_run_columns e (run_payload ctx out)) ''user_id''
     = Some (JStr (ctx_user ctx))"
  "map_of (complete_row etl_run_columns e (run_payload ctx out)) ''drifted'' = None"
  by (simp_all add: complete_row_def etl_run_columns_def run_payload_def opt_field_def
      split: option.splits)

lemma run_row_html:
  assumes "insert_row etl_run_columns e rows (run_payload ctx out) = Inr (run, rows')"
  shows "map_of run ''html'' = map_of (ctx_html_run ctx) ''id''"
proof -
  have r: "run = complete_row etl_run_columns e (run_payload ctx out)"
    using insert_row_Inr(2) [OF assms] .
  have "map_of run ''html'' \<noteq> Some JNull"
    by (rule insert_row_not_null [OF assms]) (simp add: etl_run_columns_def)
  then show ?thesis
    unfolding r
    by (simp add: complete_row_def etl_run_columns_def run_payload_def opt_field_def
        split: option.splits)
qed

lemma ex_complete:
  "POST_run_complete ex_env ex_db ex_ctx = ((201, ex_run_body), ex_db\<lparr>etl_run := [ex_run]\<rparr>)"
  by (simp add: POST_run_complete_def ex_defs ex_ctx_def ok_def run_payload_def opt_field_def
      insert_defs ex_run_def ex_run_body_def run_answer_def Let_def)

lemma ex_POST_run:
  "POST_run ex_env ex_db ''p1'' ''d1'' (Some (JObj [(''html_run_id'', JStr ''s1'')]))
   = ((201, ex_run_body), ex_db\<lparr>etl_run := [ex_run]\<rparr>, [ctx_call ex_ctx])"
proof -
  have "POST_run_validate ex_env ex_db ''p1'' ''d1'' (Some (JObj [(''html_run_id'', JStr ''s1'')]))
        = Inr ex_ctx"
    using ex_validate [where f = "fetch_result ex_env" and e = "db_env ex_env"
        and rs = "etl_run ex_db"]
    by simp
  from POST_run_Inr [OF this] show ?thesis by (simp add: ex_complete)
qed

subsection \<open>The stored run and the declared schema\<close>

text \<open>
  Claim C6 as stated fails on the scenario it names. The definition \<open>d1\<close> declares the
  schema \<open>{title, price}\<close>, the service answers \<open>{title: "x"}\<close>, the run request
  succeeds, and the one run that is stored has no \<open>drifted\<close> property.
\<close>

theorem drift_scenario_run_has_no_annotation:
  "map_of ex_def1 ''output_json_schema''
     = Some (JObj [(''title'', JStr ''string''), (''price'', JStr ''number'')])
   \<and> fetch_result ex_env = FetchResponse 200 [] (Some (JObj [(''title'', JStr ''x'')]))
   \<and> fst (fst (POST_run ex_env ex_db ''p1'' ''d1''
                  (Some (JObj [(''html_run_id'', JStr ''s1'')])))) = 201
   \<and> etl_run (fst (snd (POST_run ex_env ex_db ''p1'' ''d1''
                           (Some (JObj [(''html_run_id'', JStr ''s1'')]))))) = [ex_run]
   \<and> map_of ex_run ''output_json'' = Some (JObj [(''title'', JStr ''x'')])
   \<and> map_of ex_run ''drifted'' = None"
  by (simp add: ex_POST_run) (simp add: ex_def1_def ex_env_def ex_run_def)

text \<open>
  Claim C6, amended. A run request that succeeds appends exactly one run, whose
  properties are the six columns \<open>id\<close>, \<open>user_id\<close>, \<open>html\<close>, \<open>etl_id\<close>, \<open>created_at\<close>
  and \<open>output_json\<close>: the identifier of the snapshot used, the identifier of the
  definition, and the service's answer as it came. There is no \<open>drifted\<close> property,
  whatever schema the definition declares; the declared schema is not compared with
  the output and has no part in whether or how the run is stored.
\<close>

theorem run_record_has_no_drift_annotation:
  assumes "POST_run env d pageId etlId reqBody = ((201, body), d', calls)"
  shows "\<exists>ctx st tx out run.
      POST_run_validate env d pageId etlId reqBody = Inr ctx
      \<and> fetch_result env = FetchResponse st tx (Some out)
      \<and> d' = d\<lparr>etl_run := etl_run d @ [run]\<rparr>
      \<and> map fst run = [''id'', ''user_id'', ''html'', ''etl_id'', ''created_at'', ''output_json'']
      \<and> map_of run ''output_json'' = Some out
      \<and> map_of run ''etl_id'' = Some (JStr etlId)
      \<and> map_of run ''html'' = map_of (ctx_html_run ctx) ''id''
      \<and> map_of run ''drifted'' = None"
proof (cases "POST_run_validate env d pageId etlId reqBody")
  case (Inl r)
  then have "fst r = 201" using assms by (simp add: POST_run_Inl)
  moreover have "fst r \<noteq> 201"
    using Inl
    by (auto simp: POST_run_validate_def Let_def error_response_def internal_server_error_def
        not_ready_response_def
        split: option.splits bool.splits if_splits sum.splits json.splits)
  ultimately show ?thesis by simp
next
  case (Inr ctx)
  then have c: "POST_run_complete env d ctx = ((201, body), d')"
    using assms by (simp add: POST_run_Inr prod_eq_iff)
  from POST_run_complete_created [OF c] obtain st tx out run where
    f: "fetch_result env = FetchResponse st tx (Some out)"
    and i: "insert_row etl_run_columns (db_env env) (etl_run d) (run_payload ctx out)
          = Inr (run, etl_run d @ [run])"
    and d': "d' = d\<lparr>etl_run := etl_run d @ [run]\<rparr>"
    by blast
  have r: "run = complete_row etl_run_columns (db_env env) (run_payload ctx out)"
    using insert_row_Inr(2) [OF i] .
  from POST_run_validate_Inr [OF Inr] have e: "ctx_etl_id ctx = etlId" by blast
  have "POST_run_validate env d pageId etlId reqBody = Inr ctx
      \<and> fetch_result env = FetchResponse st tx (Some out)
      \<and> d' = d\<lparr>etl_run := etl_run d @ [run]\<rparr>
      \<and> map fst run = [''id'', ''user_id'', ''html'', ''etl_id'', ''created_at'', ''output_json'']
      \<and> map_of run ''output_json'' = Some out
      \<and> map_of run ''etl_id'' = Some (JStr etlId)
      \<and> map_of run ''html'' = map_of (ctx_html_run ctx) ''id''
      \<and> map_of run ''drifted'' = None"
    using Inr f d' run_row_html [OF i] run_row_props [of "db_env env" ctx out] e
    unfolding r [symmetric] by simp
  then show ?thesis by (intro exI)
qed

theorem run_record_has_no_drift_annotation_witness:
  "POST_run ex_env ex_db ''p1'' ''d1'' (Some (JObj [(''html_run_id'', JStr ''s1'')]))
     = ((201, ex_run_body), ex_db\<lparr>etl_run := [ex_run]\<rparr>, [ctx_call ex_ctx])
   \<and> (\<exists>ctx st tx out run.
         POST_run_validate ex_env ex_db ''p1'' ''d1''
           (Some (JObj [(''html_run_id'', JStr ''s1'')])) = Inr ctx
         \<and> fetch_result ex_env = FetchResponse st tx (Some out)
         \<and> ex_db\<lparr>etl_run := [ex_run]\<rparr> = ex_db\<lparr>etl_run := etl_run ex_db @ [run]\<rparr>
         \<and> map fst run
             = [''id'', ''user_id'', ''html'', ''etl_id'', ''created_at'', ''output_json'']
         \<and> map_of run ''output_json'' = Some out
         \<and> map_of run ''etl_id'' = Some (JStr ''d1'')
         \<and> map_of run ''html'' = map_of (ctx_html_run ctx) ''id''
         \<and> map_of run ''drifted'' = None)"
  using run_record_has_no_drift_annotation [OF ex_POST_run] ex_POST_run by simp

subsection \<open>A snapshot of another page\<close>

lemma POST_run_validate_cross_page:
  assumes "\<forall>sn \<in> set (html d). \<forall>df \<in> set (etl d).
             map_of sn ''id'' = Some hid \<longrightarrow> map_of df ''id'' = Some (JStr etlId) \<longrightarrow>
             map_of sn ''page_id'' \<noteq> map_of df ''page_id''"
    and "get_prop body ''html_run_id'' = Some hid"
    and "truthy (Some hid)"
    and "select_single
           [(''id'', JStr etlId), (''page_id'', JStr pageId), (''user_id'', JStr uid)] (etl d)
         = Some etlConfig"
  shows "select_single [(''id'', hid), (''page_id'', JStr pageId), (''user_id'', JStr uid)] (html d)
         = None"
proof -
  let ?c = "[(''id'', hid), (''page_id'', JStr pageId), (''user_id'', JStr uid)]"
  from select_single_Some [OF assms(4)]
  have e: "etlConfig \<in> set (etl d)" "map_of etlConfig ''id'' = Some (JStr etlId)"
    "map_of etlConfig ''page_id'' = Some (JStr pageId)"
    by (auto simp: matches_def)
  have "\<forall>sn \<in> set (html d). \<not> matches ?c sn"
  proof
    fix sn assume s: "sn \<in> set (html d)"
    show "\<not> matches ?c sn"
    proof
      assume "matches ?c sn"
      then have "map_of sn ''id'' = Some hid" "map_of sn ''page_id'' = Some (JStr pageId)"
        by (auto simp: matches_def)
      with assms(1) s e show False by force
    qed
  qed
  then have "filter (matches ?c) (html d) = []" by (simp add: filter_empty_conv)
  then show ?thesis by (simp add: select_single_def single_def)
qed


lemma POST_run_validate_cross_page_Inl:
  assumes "\<forall>sn \<in> set (html d). \<forall>df \<in> set (etl d).
             map_of sn ''id'' = Some hid \<longrightarrow> map_of df ''id'' = Some (JStr etlId) \<longrightarrow>
             map_of sn ''page_id'' \<noteq> map_of df ''page_id''"
    and "get_prop body ''html_run_id'' = Some hid"
    and "truthy (Some hid)"
  shows "\<exists>r. POST_run_validate env d pageId etlId (Some body) = Inl r
           \<and> fst r \<in> {400, 401, 404, 500}
           \<and> (\<forall>uid page_row etlConfig.
                 auth_user env = Some uid
                 \<and> select_single [(''id'', JStr pageId), (''user_id'', JStr uid)] (pages d)
                     = Some page_row
                 \<and> select_single
                      [(''id'', JStr etlId), (''page_id'', JStr pageId), (''user_id'', JStr uid)]
                      (etl d) = Some etlConfig
                 \<and> still_training (map_of etlConfig ''src_code'') = Some False
                 \<longrightarrow> r = error_response 404 ''HTML run not found or access denied'')"
proof (cases "auth_user env")
  case None
  then show ?thesis by (simp add: POST_run_validate_def error_response_def)
next
  case (Some uid)
  note a = this
  show ?thesis
  proof (cases "select_single [(''id'', JStr pageId), (''user_id'', JStr uid)] (pages d)")
    case None
    then show ?thesis using a by (simp add: POST_run_validate_def error_response_def)
  next
    case (Some page_row)
    note p = this
    show ?thesis
    proof (cases "select_single
                    [(''id'', JStr etlId), (''page_id'', JStr pageId), (''user_id'', JStr uid)]
                    (etl d)")
      case None
      then show ?thesis using a p by (simp add: POST_run_validate_def error_response_def)
    next
      case (Some etlConfig)
      note e = this
      have h: "select_single
                 [(''id'', hid), (''page_id'', JStr pageId), (''user_id'', JStr uid)] (html d)
               = None"
        by (rule POST_run_validate_cross_page [OF assms e])
      have b: "body \<noteq> JNull" using assms(2) by auto
      show ?thesis
      proof (cases "still_training (map_of etlConfig ''src_code'')")
        case None
        then show ?thesis
          using a p e
          by (simp add: POST_run_validate_def error_response_def internal_server_error_def)
      next
        case (Some t)
        then show ?thesis
          using a p e h b assms(2,3)
          by (cases t)
            (simp_all add: POST_run_validate_def error_response_def not_ready_response_def)
      qed
    qed
  qed
qed

text \<open>
  Claim C5 as stated fails on the code: there is no answer of its own for a snapshot of
  another page. Running \<open>d1\<close> (page \<open>p1\<close>) on the snapshot \<open>s2\<close> (page \<open>p2\<close>) is
  answered with the 404 "HTML run not found or access denied", the answer that the
  same request gets for a snapshot identifier that does not exist at all. And running
  \<open>d0\<close> (page \<open>p1\<close>, still being trained) on \<open>s2\<close> is answered with the 400 "still
  being trained": the training test comes before the snapshot is looked up.
\<close>

theorem cross_page_answer_is_not_found:
  "map_of ex_def1 ''page_id'' = Some (JStr ''p1'')
   \<and> map_of ex_def0 ''page_id'' = Some (JStr ''p1'')
   \<and> map_of ex_snap2 ''page_id'' = Some (JStr ''p2'')
   \<and> POST_run ex_env ex_db ''p1'' ''d1'' (Some (JObj [(''html_run_id'', JStr ''s2'')]))
       = (error_response 404 ''HTML run not found or access denied'', ex_db, [])
   \<and> POST_run ex_env ex_db ''p1'' ''d1'' (Some (JObj [(''html_run_id'', JStr ''s9'')]))
       = (error_response 404 ''HTML run not found or access denied'', ex_db, [])
   \<and> POST_run ex_env ex_db ''p1'' ''d0'' (Some (JObj [(''html_run_id'', JStr ''s2'')]))
       = (not_ready_response, ex_db, [])"
  by (simp add: POST_run_def POST_run_validate_def ex_defs query_defs still_training_def
      trim_def js_whitespace_def)

text \<open>
  Claim C5, amended. A run request that names a snapshot whose page differs from the
  page of the definition fails without a call to the scraping service and without a
  write: the answer has status 400, 401, 404 or 500, the database is unchanged and the
  list of calls is empty. When the request is that of the authenticated owner, on the
  page of the definition, and the definition is trained, the answer is the 404
  "HTML run not found or access denied".
\<close>

theorem execute_cross_page_not_found:
  assumes "\<forall>sn \<in> set (html d). \<forall>df \<in> set (etl d).
             map_of sn ''id'' = Some hid \<longrightarrow> map_of df ''id'' = Some (JStr etlId) \<longrightarrow>
             map_of sn ''page_id'' \<noteq> map_of df ''page_id''"
    and "get_prop body ''html_run_id'' = Some hid"
    and "truthy (Some hid)"
  shows "\<exists>r. POST_run env d pageId etlId (Some body) = (r, d, [])
           \<and> fst r \<in> {400, 401, 404, 500}
           \<and> (\<forall>uid page_row etlConfig.
                 auth_user env = Some uid
                 \<and> select_single [(''id'', JStr pageId), (''user_id'', JStr uid)] (pages d)
                     = Some page_row
                 \<and> select_single
                      [(''id'', JStr etlId), (''page_id'', JStr pageId), (''user_id'', JStr uid)]
                      (etl d) = Some etlConfig
                 \<and> still_training (map_of etlConfig ''src_code'') = Some False
                 \<longrightarrow> r = error_response 404 ''HTML run not found or access denied'')"
proof -
  from POST_run_validate_cross_page_Inl [OF assms, of env pageId]
  obtain r where "POST_run_validate env d pageId etlId (Some body) = Inl r"
    and "fst r \<in> {400, 401, 404, 500}"
    and "\<forall>uid page_row etlConfig.
                 auth_user env = Some uid
                 \<and> select_single [(''id'', JStr pageId), (''user_id'', JStr uid)] (pages d)
                     = Some page_row
                 \<and> select_single
                      [(''id'', JStr etlId), (''page_id'', JStr pageId), (''user_id'', JStr uid)]
                      (etl d) = Some etlConfig
                 \<and> still_training (map_of etlConfig ''src_code'') = Some False
                 \<longrightarrow> r = error_response 404 ''HTML run not found or access denied''"
    by blast
  then show ?thesis using POST_run_Inl by blast
qed

theorem execute_cross_page_not_found_witness:
  "map_of ex_def1 ''page_id'' = Some (JStr ''p1'')
   \<and> map_of ex_snap2 ''page_id'' = Some (JStr ''p2'')
   \<and> get_prop (JObj [(''html_run_id'', JStr ''s2'')]) ''html_run_id'' = Some (JStr ''s2'')
   \<and> truthy (Some (JStr ''s2''))
   \<and> (\<exists>r. POST_run ex_env ex_db ''p1'' ''d1'' (Some (JObj [(''html_run_id'', JStr ''s2'')]))
             = (r, ex_db, [])
           \<and> fst r \<in> {400, 401, 404, 500}
           \<and> (\<forall>uid page_row etlConfig.
                 auth_user ex_env = Some uid
                 \<and> select_single [(''id'', JStr ''p1''), (''user_id'', JStr uid)] (pages ex_db)
                     = Some page_row
                 \<and> select_single
                      [(''id'', JStr ''d1''), (''page_id'', JStr ''p1''), (''user_id'', JStr uid)]
                      (etl ex_db) = Some etlConfig
                 \<and> still_training (map_of etlConfig ''src_code'') = Some False
                 \<longrightarrow> r = error_response 404 ''HTML run not found or access denied''))"
proof -
  have c: "\<forall>sn \<in> set (html ex_db). \<forall>df \<in> set (etl ex_db).
             map_of sn ''id'' = Some (JStr ''s2'') \<longrightarrow> map_of df ''id'' = Some (JStr ''d1'') \<longrightarrow>
             map_of sn ''page_id'' \<noteq> map_of df ''page_id''"
    by (simp add: ex_defs)
  have h: "get_prop (JObj [(''html_run_id'', JStr ''s2'')]) ''html_run_id'' = Some (JStr ''s2'')"
    by simp
  have t: "truthy (Some (JStr ''s2''))"
    by simp
  have p: "map_of ex_def1 ''page_id'' = Some (JStr ''p1'')"
    "map_of ex_snap2 ''page_id'' = Some (JStr ''p2'')"
    by (simp_all add: ex_defs)
  from execute_cross_page_not_found [OF c h t, of ex_env "''p1''"] p h t
  show ?thesis by simp
qed

subsection \<open>Learning a definition\<close>

lemma POST_learn_called:
  assumes "POST_learn env d pageId reqBody = (r, d', calls)" and "calls \<noteq> []"
  shows "\<exists>uid goal hid c.
           auth_user env = Some uid \<and> truthy (Some goal) \<and> truthy (Some hid) \<and> calls = [c]
           \<and> POST_learn_complete env d uid pageId goal hid = (r, d')"
  using assms
  by (auto simp: POST_learn_def case_prod_beta prod_eq_iff
      split: option.splits if_splits json.splits)

lemma POST_learn_complete_failed:
  assumes "generation_failed (fetch_result env)"
  shows "snd (POST_learn_complete env d uid pageId goal hid) = d
         \<and> fst (POST_learn_complete env d uid pageId goal hid)
             \<in> {learn_failed_response, no_code_response}"
  using assms
  by (auto simp: POST_learn_complete_def generation_failed_def
      split: fetch_result.splits option.splits)

lemma POST_learn_complete_other:
  assumes "generated (fetch_result env) = None" and "\<not> generation_failed (fetch_result env)"
  shows "POST_learn_complete env d uid pageId goal hid = (internal_server_error, d)"
  using assms
  by (auto simp: POST_learn_complete_def generation_failed_def generated_def
      split: fetch_result.splits option.splits if_splits)

lemma POST_learn_complete_generated:
  assumes "generated (fetch_result env) = Some (code, schema)"
  shows "POST_learn_complete env d uid pageId goal hid
         = (case insert_row etl_columns (db_env env) (etl d)
                   (learn_payload uid pageId goal schema code hid) of
              Inl e \<Rightarrow> (error_response 400 (message e), d)
            | Inr (etl_row, rows') \<Rightarrow>
                ((201, JObj [(''data'', JObj etl_row),
                             (''message'', JStr ''ETL configuration created successfully'')]),
                 d\<lparr>etl := rows'\<rparr>))"
  using assms
  by (auto simp: POST_learn_complete_def generated_def
      split: fetch_result.splits option.splits if_splits)

lemma generated_truthy: "generated f = Some (code, schema) \<Longrightarrow> truthy (Some code)"
  by (auto simp: generated_def split: fetch_result.splits option.splits if_splits)

lemma insert_learn_payload:
  assumes "truthy (Some goal)" and "truthy (Some code)" and "truthy (Some hid)"
  shows "insert_row etl_columns e rows (learn_payload uid pageId goal schema code hid)
         = (case failure e of
              Some m \<Rightarrow> Inl (OtherFailure m)
            | None \<Rightarrow>
                if Some (JStr (uuid e)) \<in> set (map (\<lambda>x. map_of x ''id'') rows)
                then Inl UniqueViolation
                else Inr (complete_row etl_columns e
                            (learn_payload uid pageId goal schema code hid),
                          rows @ [complete_row etl_columns e
                                    (learn_payload uid pageId goal schema code hid)]))"
  using assms [THEN truthy_not_null]
  by (simp add: insert_row_def etl_columns_def learn_payload_def complete_row_def Let_def
      split: option.splits)

lemma learn_row_props:
  "map_of (complete_row etl_columns e (learn_payload uid pageId goal schema code hid)) ''src_code''
     = Some code"
  "map_of (complete_row etl_columns e (learn_payload uid pageId goal schema code hid))
     ''output_json_schema'' = Some (or_null schema)"
  "map_of (complete_row etl_columns e (learn_payload uid pageId goal schema code hid)) ''page_id''
     = Some (JStr pageId)"
  "map_of (complete_row etl_columns e (learn_payload uid pageId goal schema code hid)) ''goal''
     = Some goal"
  "map_of (complete_row etl_columns e (learn_payload uid pageId goal schema code hid))
     ''html_page_run_id'' = Some hid"
  by (simp_all add: complete_row_def etl_columns_def learn_payload_def)

lemma still_training_nonblank:
  "trim s \<noteq> [] \<Longrightarrow> still_training (Some (JStr s)) = Some False"
  by (auto simp: still_training_def trim_def)

lemma ex_learn_validated:
  "POST_learn (ex_env\<lparr>fetch_result := f, db_env := e\<rparr>) ex_db ''p1'' (Some ex_learn_body)
   = (fst (POST_learn_complete (ex_env\<lparr>fetch_result := f, db_env := e\<rparr>) ex_db ''u1'' ''p1''
             (JStr ''extract title'') (JStr ''s1'')),
      snd (POST_learn_complete (ex_env\<lparr>fetch_result := f, db_env := e\<rparr>) ex_db ''u1'' ''p1''
             (JStr ''extract title'') (JStr ''s1'')),
      [ex_learn_call])"
  by (simp add: POST_learn_def ex_learn_body_def ex_defs query_defs env_url_def opt_field_def
      ex_learn_call_def case_prod_beta)

lemma ex_learn_created:
  "POST_learn ex_env_learn ex_db ''p1'' (Some ex_learn_body)
   = ((201, JObj [(''data'', JObj ex_learned),
                  (''message'', JStr ''ETL configuration created successfully'')]),
      ex_db\<lparr>etl := etl ex_db @ [ex_learned]\<rparr>, [ex_learn_call])"
proof -
  have "POST_learn_complete ex_env_learn ex_db ''u1'' ''p1'' (JStr ''extract title'') (JStr ''s1'')
        = ((201, JObj [(''data'', JObj ex_learned),
                       (''message'', JStr ''ETL configuration created successfully'')]),
           ex_db\<lparr>etl := etl ex_db @ [ex_learned]\<rparr>)"
    by (simp add: POST_learn_complete_def ex_env_learn_def ex_generated_def ex_learned_def
        ex_defs ok_def learn_payload_def or_null_def insert_defs Let_def)
  then show ?thesis
    using ex_learn_validated [where f = "fetch_result ex_env_learn" and e = "db_env ex_env_learn"]
    by (simp add: ex_env_learn_def)
qed

lemma ex_learn_502:
  "POST_learn ex_env_learn_502 ex_db ''p1'' (Some ex_learn_body)
   = (learn_failed_response, ex_db, [ex_learn_call])"
proof -
  have "POST_learn_complete ex_env_learn_502 ex_db ''u1'' ''p1'' (JStr ''extract title'')
          (JStr ''s1'') = (learn_failed_response, ex_db)"
    by (simp add: POST_learn_complete_def ex_env_learn_502_def ok_def)
  then show ?thesis
    using ex_learn_validated [where f = "fetch_result ex_env_learn_502"
        and e = "db_env ex_env_learn_502"]
    by (simp add: ex_env_learn_502_def)
qed

text \<open>
  Claim C2 as stated fails on the code when the insert fails after a successful
  generation. The service has answered with status 200, an extraction function and a
  schema; the insert is refused; the handler answers 400 with the database's message,
  which is neither of the two generation failures, and the definitions are unchanged.
  So the generation has succeeded and yet no definition has been persisted.
\<close>

theorem learn_insert_failure_is_a_third_outcome:
  "generated (fetch_result ex_env_learn_dbfail)
     = Some (JStr ''def extract(html): return {}'', Some (JObj [(''title'', JStr ''string'')]))
   \<and> \<not> generation_failed (fetch_result ex_env_learn_dbfail)
   \<and> POST_learn ex_env_learn_dbfail ex_db ''p1'' (Some ex_learn_body)
       = (error_response 400 ''connection terminated'', ex_db, [ex_learn_call])
   \<and> error_response 400 ''connection terminated'' \<noteq> learn_failed_response
   \<and> error_response 400 ''connection terminated'' \<noteq> no_code_response"
proof -
  have "POST_learn_complete ex_env_learn_dbfail ex_db ''u1'' ''p1'' (JStr ''extract title'')
          (JStr ''s1'') = (error_response 400 ''connection terminated'', ex_db)"
    by (simp add: POST_learn_complete_def ex_env_learn_dbfail_def ex_env_learn_def
        ex_generated_def ok_def insert_row_def message_def)
  then have "POST_learn ex_env_learn_dbfail ex_db ''p1'' (Some ex_learn_body)
       = (error_response 400 ''connection terminated'', ex_db, [ex_learn_call])"
    using ex_learn_validated [where f = "fetch_result ex_env_learn_dbfail"
        and e = "db_env ex_env_learn_dbfail"]
    by (simp add: ex_env_learn_dbfail_def ex_env_learn_def)
  then show ?thesis
    by (simp add: generated_def generation_failed_def ex_env_learn_dbfail_def ex_env_learn_def
        ex_generated_def ok_def error_response_def learn_failed_response_def
        no_code_response_def)
qed

text \<open>
  Beside that, the guard \<open>!etl_function_code\<close> lets a blank extraction function pass,
  which the run handler and the extraction list count as "still being trained": the
  stored definition then fails the training test. The amended claim below leaves this
  case out.
\<close>

lemma learn_blank_code_is_stored:
  "fst (fst (POST_learn ex_env_learn_blank ex_db ''p1'' (Some ex_learn_body))) = 201
   \<and> still_training
        (map_of (last (etl (fst (snd (POST_learn ex_env_learn_blank ex_db ''p1''
                                        (Some ex_learn_body)))))) ''src_code'') = Some True"
proof -
  have "POST_learn_complete ex_env_learn_blank ex_db ''u1'' ''p1'' (JStr ''extract title'')
          (JStr ''s1'')
        = ((201, JObj [(''data'',
                          JObj (complete_row etl_columns (db_env ex_env)
                                  (learn_payload ''u1'' ''p1'' (JStr ''extract title'') None
                                     (JStr '' '') (JStr ''s1'')))),
                       (''message'', JStr ''ETL configuration created successfully'')]),
           ex_db\<lparr>etl := etl ex_db
                     @ [complete_row etl_columns (db_env ex_env)
                          (learn_payload ''u1'' ''p1'' (JStr ''extract title'') None
                             (JStr '' '') (JStr ''s1''))]\<rparr>)"
    by (simp add: POST_learn_complete_def ex_env_learn_blank_def ok_def insert_learn_payload)
      (simp add: ex_defs)
  then show ?thesis
    using ex_learn_validated [where f = "fetch_result ex_env_learn_blank"
        and e = "db_env ex_env_learn_blank"]
    by (simp add: ex_env_learn_blank_def learn_row_props still_training_def trim_def
        js_whitespace_def)
qed

text \<open>
  Claim C2, amended. A learn request that reaches the generation service makes exactly
  one call, and:
  \<^item> when the service answers with a status that is not a success status, or with a
    JSON body whose extraction function is missing or empty, no definition is created,
    the database is unchanged, and the answer is one of the two generation failures
    ("Failed to process ETL learning", "ETL function code not generated");
  \<^item> when the service answers with an extraction function and the insert succeeds (no
    failure of the database, a fresh identifier), exactly one definition is appended,
    with the returned code, the returned schema (or \<open>null\<close>) and the page of the
    request, and the answer is a 201; the definition passes the training test whenever
    the code is a string that is not blank;
  \<^item> when the service answers with an extraction function and the insert fails, the
    database is unchanged and the answer is a 400;
  \<^item> when the \<open>fetch\<close> throws or the body is not JSON or is \<open>null\<close>, the database is
    unchanged and the answer is the 500 "Internal server error".
\<close>

theorem learn_outcomes:
  assumes "POST_learn env d pageId reqBody = (r, d', calls)" and "calls \<noteq> []"
  shows "length calls = 1
    \<and> (generation_failed (fetch_result env) \<longrightarrow>
         d' = d \<and> r \<in> {learn_failed_response, no_code_response})
    \<and> (\<forall>code schema. generated (fetch_result env) = Some (code, schema) \<longrightarrow>
         (if failure (db_env env) = None
             \<and> Some (JStr (uuid (db_env env))) \<notin> set (map (\<lambda>x. map_of x ''id'') (etl d))
          then \<exists>row. d' = d\<lparr>etl := etl d @ [row]\<rparr> \<and> fst r = 201
                 \<and> map_of row ''src_code'' = Some code
                 \<and> map_of row ''output_json_schema'' = Some (or_null schema)
                 \<and> map_of row ''page_id'' = Some (JStr pageId)
                 \<and> (\<forall>s. code = JStr s \<and> trim s \<noteq> [] \<longrightarrow>
                       still_training (map_of row ''src_code'') = Some False)
          else d' = d \<and> fst r = 400))
    \<and> (generated (fetch_result env) = None \<and> \<not> generation_failed (fetch_result env) \<longrightarrow>
         d' = d \<and> r = internal_server_error)"
proof -
  from POST_learn_called [OF assms] obtain uid goal hid c where
    g: "truthy (Some goal)" and h: "truthy (Some hid)" and c: "calls = [c]"
    and p: "POST_learn_complete env d uid pageId goal hid = (r, d')"
    by blast
  have A: "length calls = 1" using c by simp
  have B: "generation_failed (fetch_result env) \<longrightarrow>
         d' = d \<and> r \<in> {learn_failed_response, no_code_response}"
    using POST_learn_complete_failed [of env d uid pageId goal hid] p by simp
  have D: "generated (fetch_result env) = None \<and> \<not> generation_failed (fetch_result env) \<longrightarrow>
         d' = d \<and> r = internal_server_error"
    using POST_learn_complete_other [of env d uid pageId goal hid] p by auto
  have C: "\<forall>code schema. generated (fetch_result env) = Some (code, schema) \<longrightarrow>
         (if failure (db_env env) = None
             \<and> Some (JStr (uuid (db_env env))) \<notin> set (map (\<lambda>x. map_of x ''id'') (etl d))
          then \<exists>row. d' = d\<lparr>etl := etl d @ [row]\<rparr> \<and> fst r = 201
                 \<and> map_of row ''src_code'' = Some code
                 \<and> map_of row ''output_json_schema'' = Some (or_null schema)
                 \<and> map_of row ''page_id'' = Some (JStr pageId)
                 \<and> (\<forall>s. code = JStr s \<and> trim s \<noteq> [] \<longrightarrow>
                       still_training (map_of row ''src_code'') = Some False)
          else d' = d \<and> fst r = 400)"
  proof (intro allI impI)
    fix code schema
    assume gen: "generated (fetch_result env) = Some (code, schema)"
    note t = generated_truthy [OF gen]
    note q = POST_learn_complete_generated [OF gen, of d uid pageId goal hid, unfolded p
        insert_learn_payload [OF g t h]]
    show "if failure (db_env env) = None
             \<and> Some (JStr (uuid (db_env env))) \<notin> set (map (\<lambda>x. map_of x ''id'') (etl d))
          then \<exists>row. d' = d\<lparr>etl := etl d @ [row]\<rparr> \<and> fst r = 201
                 \<and> map_of row ''src_code'' = Some code
                 \<and> map_of row ''output_json_schema'' = Some (or_null schema)
                 \<and> map_of row ''page_id'' = Some (JStr pageId)
                 \<and> (\<forall>s. code = JStr s \<and> trim s \<noteq> [] \<longrightarrow>
                       still_training (map_of row ''src_code'') = Some False)
          else d' = d \<and> fst r = 400"
    proof (cases "failure (db_env env) = None
             \<and> Some (JStr (uuid (db_env env))) \<notin> set (map (\<lambda>x. map_of x ''id'') (etl d))")
      case True
      then show ?thesis
        using q by (auto simp: learn_row_props still_training_nonblank)
    next
      case False
      then show ?thesis
        using q by (auto simp: error_response_def split: option.splits)
    qed
  qed
  from A B C D show ?thesis by blast
qed


theorem learn_outcomes_witness:
  "POST_learn ex_env_learn ex_db ''p1'' (Some ex_learn_body)
     = ((201, JObj [(''data'', JObj ex_learned),
                    (''message'', JStr ''ETL configuration created successfully'')]),
        ex_db\<lparr>etl := etl ex_db @ [ex_learned]\<rparr>, [ex_learn_call])
   \<and> [ex_learn_call] \<noteq> []
   \<and> generated (fetch_result ex_env_learn)
       = Some (JStr ''def extract(html): return {}'', Some (JObj [(''title'', JStr ''string'')]))
   \<and> (\<exists>row. ex_db\<lparr>etl := etl ex_db @ [ex_learned]\<rparr> = ex_db\<lparr>etl := etl ex_db @ [row]\<rparr>
             \<and> map_of row ''src_code'' = Some (JStr ''def extract(html): return {}'')
             \<and> still_training (map_of row ''src_code'') = Some False)
   \<and> POST_learn ex_env_learn_502 ex_db ''p1'' (Some ex_learn_body)
       = (learn_failed_response, ex_db, [ex_learn_call])
   \<and> generation_failed (fetch_result ex_env_learn_502)"
proof -
  have n: "[ex_learn_call] \<noteq> []" by simp
  have g: "generated (fetch_result ex_env_learn)
       = Some (JStr ''def extract(html): return {}'', Some (JObj [(''title'', JStr ''string'')]))"
    by (simp add: generated_def ex_env_learn_def ex_generated_def ok_def)
  have f: "failure (db_env ex_env_learn) = None
           \<and> Some (JStr (uuid (db_env ex_env_learn)))
               \<notin> set (map (\<lambda>x. map_of x ''id'') (etl ex_db))"
    by (simp add: ex_env_learn_def ex_defs)
  have b: "trim ''def extract(html): return {}'' \<noteq> []"
    by (simp add: trim_def js_whitespace_def)
  have x: "generation_failed (fetch_result ex_env_learn_502)"
    by (simp add: generation_failed_def ex_env_learn_502_def ok_def)
  from learn_outcomes [OF ex_learn_created n] g f b
  have "\<exists>row. ex_db\<lparr>etl := etl ex_db @ [ex_learned]\<rparr> = ex_db\<lparr>etl := etl ex_db @ [row]\<rparr>
             \<and> map_of row ''src_code'' = Some (JStr ''def extract(html): return {}'')
             \<and> still_training (map_of row ''src_code'') = Some False"
    by auto
  with ex_learn_created n g ex_learn_502 x show ?thesis by simp
qed

subsection \<open>Two run requests at the same time\<close>

lemma POST_run_validate_etl_run:
  "POST_run_validate env (d\<lparr>etl_run := rs\<rparr>) pageId etlId b = POST_run_validate env d pageId etlId b"
  by (simp add: POST_run_validate_def Let_def
      cong: option.case_cong sum.case_cong json.case_cong bool.case_cong if_cong)

lemma POST_run_validate_html_id:
  assumes "POST_run_validate env d pageId etlId (Some body) = Inr ctx"
    and "get_prop body ''html_run_id'' = Some hid"
    and "truthy (Some hid)"
  shows "map_of (ctx_html_run ctx) ''id'' = Some hid"
proof -
  from assms obtain uid where
    "select_single [(''id'', hid), (''page_id'', JStr pageId), (''user_id'', JStr uid)] (html d)
     = Some (ctx_html_run ctx)"
    by (auto simp: POST_run_validate_def Let_def
        split: option.splits bool.splits if_splits sum.splits json.splits)
  from select_single_Some(2) [OF this] show ?thesis by (simp add: matches_def)
qed

lemma run_row_id:
  "map_of (complete_row etl_run_columns e (run_payload ctx out)) ''id'' = Some (JStr (uuid e))"
  by (simp add: complete_row_def etl_run_columns_def run_payload_def opt_field_def
      split: option.splits)

lemma POST_run_complete_succeeds:
  assumes "fetch_result env = FetchResponse st tx (Some out)"
    and "ok st"
    and "failure (db_env env) = None"
    and "map_of (ctx_html_run ctx) ''id'' = Some hid"
    and "truthy (Some hid)"
    and "Some (JStr (uuid (db_env env))) \<notin> set (map (\<lambda>x. map_of x ''id'') (etl_run d))"
  shows "POST_run_complete env d ctx
         = (run_answer ctx (complete_row etl_run_columns (db_env env) (run_payload ctx out)),
            d\<lparr>etl_run := etl_run d
                     @ [complete_row etl_run_columns (db_env env) (run_payload ctx out)]\<rparr>)"
  using assms truthy_not_null [OF assms(5)]
  by (simp add: POST_run_complete_def insert_row_def etl_run_columns_def run_payload_def
      complete_row_def opt_field_def Let_def run_answer_def)

lemma with_runs_simps:
  "etl_run (with_runs d rs) = rs"
  "with_runs (with_runs d rs) rs' = with_runs d rs'"
  "POST_run_validate env (with_runs d rs) pageId etlId b = POST_run_validate env d pageId etlId b"
  by (simp_all add: with_runs_def POST_run_validate_etl_run)

lemma with_runs_same: "with_runs d (etl_run d) = d"
  by (simp add: with_runs_def)

lemma first_starts:
  assumes "POST_run_validate e0 d pageId etlId b = Inr c0"
  shows "step 0 \<lparr>sys_db = with_runs d rs, sys_calls = cs,
                  sys_threads = [(e0, Waiting pageId etlId b), t1]\<rparr>
         = \<lparr>sys_db = with_runs d rs, sys_calls = cs @ [(0, ctx_call c0)],
            sys_threads = [(e0, Calling c0), t1]\<rparr>"
  using assms by (simp add: step_def with_runs_simps)

lemma second_starts:
  assumes "POST_run_validate e1 d pageId etlId b = Inr c1"
  shows "step (Suc 0) \<lparr>sys_db = with_runs d rs, sys_calls = cs,
                  sys_threads = [t0, (e1, Waiting pageId etlId b)]\<rparr>
         = \<lparr>sys_db = with_runs d rs, sys_calls = cs @ [(Suc 0, ctx_call c1)],
            sys_threads = [t0, (e1, Calling c1)]\<rparr>"
  using assms by (simp add: step_def with_runs_simps)

lemma first_finishes:
  assumes "fetch_result e0 = FetchResponse st tx (Some out)"
    and "ok st"
    and "failure (db_env e0) = None"
    and "map_of (ctx_html_run c0) ''id'' = Some hid"
    and "truthy (Some hid)"
    and "Some (JStr (uuid (db_env e0))) \<notin> set (map (\<lambda>x. map_of x ''id'') rs)"
  shows "step 0 \<lparr>sys_db = with_runs d rs, sys_calls = cs,
                  sys_threads = [(e0, Calling c0), t1]\<rparr>
         = \<lparr>sys_db = with_runs d (rs @ [complete_row etl_run_columns (db_env e0)
                                           (run_payload c0 out)]),
            sys_calls = cs,
            sys_threads = [(e0, Answered (run_answer c0 (complete_row etl_run_columns (db_env e0)
                                              (run_payload c0 out)))), t1]\<rparr>"
  using POST_run_complete_succeeds [OF assms(1-5), of "with_runs d rs"] assms(6)
  by (simp add: step_def with_runs_simps) (simp add: with_runs_def)

lemma second_finishes:
  assumes "fetch_result e1 = FetchResponse st tx (Some out)"
    and "ok st"
    and "failure (db_env e1) = None"
    and "map_of (ctx_html_run c1) ''id'' = Some hid"
    and "truthy (Some hid)"
    and "Some (JStr (uuid (db_env e1))) \<notin> set (map (\<lambda>x. map_of x ''id'') rs)"
  shows "step (Suc 0) \<lparr>sys_db = with_runs d rs, sys_calls = cs,
                  sys_threads = [t0, (e1, Calling c1)]\<rparr>
         = \<lparr>sys_db = with_runs d (rs @ [complete_row etl_run_columns (db_env e1)
                                           (run_payload c1 out)]),
            sys_calls = cs,
            sys_threads = [t0, (e1, Answered (run_answer c1 (complete_row etl_run_columns (db_env e1)
                                              (run_payload c1 out))))]\<rparr>"
  using POST_run_complete_succeeds [OF assms(1-5), of "with_runs d rs"] assms(6)
  by (simp add: step_def with_runs_simps) (simp add: with_runs_def)

lemma ex_validate_both:
  "POST_run_validate ex_env ex_db ''p1'' ''d1'' (Some (JObj [(''html_run_id'', JStr ''s1'')]))
   = Inr ex_ctx"
  "POST_run_validate ex_env2 ex_db ''p1'' ''d1'' (Some (JObj [(''html_run_id'', JStr ''s1'')]))
   = Inr ex_ctx"
  using ex_validate [where f = "fetch_result ex_env" and e = "db_env ex_env"
      and rs = "etl_run ex_db"]
    ex_validate [where f = "fetch_result ex_env" and e = "db_env ex_env2"
      and rs = "etl_run ex_db"]
  by (simp_all add: ex_env2_def)

text \<open>
  Claim C1 as stated fails on the code: the handler takes no lease. Of two requests to
  run \<open>d1\<close> on \<open>s1\<close>, the second is served while the call of the first is in flight.
  Both requests then have a call in flight for the same definition and snapshot, and
  the scraping service has been called twice, with the same body.
\<close>

theorem overlapping_runs_both_call_the_service:
  "map pair_in_flight (sys_threads (run_schedule [0, 1] ex_system))
     = [Some (''d1'', Some (JStr ''s1'')), Some (''d1'', Some (JStr ''s1''))]
   \<and> sys_calls (run_schedule [0, 1] ex_system) = [(0, ctx_call ex_ctx), (1, ctx_call ex_ctx)]"
  by (simp add: run_schedule_def step_def ex_system_def ex_validate_both pair_in_flight_def)
    (simp add: ex_ctx_def ex_snap1_def)

lemma POST_run_validate_same_tables:
  assumes "pages x = pages d" and "html x = html d" and "etl x = etl d"
  shows "POST_run_validate env x pageId etlId b = POST_run_validate env d pageId etlId b"
  using assms
  by (simp add: POST_run_validate_def Let_def
      cong: option.case_cong sum.case_cong json.case_cong bool.case_cong if_cong)

lemma any_first_starts:
  assumes "POST_run_validate e0 d pageId etlId b = Inr c0"
    and "pages x = pages d" and "html x = html d" and "etl x = etl d"
  shows "step 0 \<lparr>sys_db = x, sys_calls = cs,
                  sys_threads = [(e0, Waiting pageId etlId b), t1]\<rparr>
         = \<lparr>sys_db = x, sys_calls = cs @ [(0, ctx_call c0)],
            sys_threads = [(e0, Calling c0), t1]\<rparr>"
  using assms(1) POST_run_validate_same_tables [OF assms(2-4), of e0 pageId etlId b]
  by (simp add: step_def)

lemma any_second_starts:
  assumes "POST_run_validate e1 d pageId etlId b = Inr c1"
    and "pages x = pages d" and "html x = html d" and "etl x = etl d"
  shows "step (Suc 0) \<lparr>sys_db = x, sys_calls = cs,
                  sys_threads = [t0, (e1, Waiting pageId etlId b)]\<rparr>
         = \<lparr>sys_db = x, sys_calls = cs @ [(Suc 0, ctx_call c1)],
            sys_threads = [t0, (e1, Calling c1)]\<rparr>"
  using assms(1) POST_run_validate_same_tables [OF assms(2-4), of e1 pageId etlId b]
  by (simp add: step_def)

lemma any_first_finishes:
  "step 0 \<lparr>sys_db = x, sys_calls = cs, sys_threads = [(e0, Calling c0), t1]\<rparr>
   = \<lparr>sys_db = snd (POST_run_complete e0 x c0), sys_calls = cs,
      sys_threads = [(e0, Answered (fst (POST_run_complete e0 x c0))), t1]\<rparr>"
  by (simp add: step_def case_prod_beta)

lemma any_second_finishes:
  "step (Suc 0) \<lparr>sys_db = x, sys_calls = cs, sys_threads = [t0, (e1, Calling c1)]\<rparr>
   = \<lparr>sys_db = snd (POST_run_complete e1 x c1), sys_calls = cs,
      sys_threads = [t0, (e1, Answered (fst (POST_run_complete e1 x c1)))]\<rparr>"
  by (simp add: step_def case_prod_beta)

lemma overlapping_runs_call_twice:
  assumes v0: "POST_run_validate e0 d pageId etlId b = Inr c0"
    and v1: "POST_run_validate e1 d pageId etlId b = Inr c1"
    and s: "sched \<in> shuffles [0, 0] [1, 1]"
  shows "sys_calls (run_schedule sched
                      \<lparr>sys_db = d, sys_calls = [],
                       sys_threads = [(e0, Waiting pageId etlId b),
                                      (e1, Waiting pageId etlId b)]\<rparr>)
           = [(0, ctx_call c0), (1, ctx_call c1)]
         \<or> sys_calls (run_schedule sched
                      \<lparr>sys_db = d, sys_calls = [],
                       sys_threads = [(e0, Waiting pageId etlId b),
                                      (e1, Waiting pageId etlId b)]\<rparr>)
           = [(1, ctx_call c1), (0, ctx_call c0)]"
proof -
  note rules = any_first_starts [OF v0] any_second_starts [OF v1]
    any_first_finishes any_second_finishes POST_run_complete_tables
  from s have "sched \<in> {[0, 0, 1, 1], [0, 1, 0, 1], [0, 1, 1, 0],
                          [1, 0, 0, 1], [1, 0, 1, 0], [1, 1, 0, 0]}"
    by auto
  then show ?thesis
    by (auto simp add: run_schedule_def rules)
qed

lemma overlapping_failed_runs_store_nothing:
  assumes v0: "POST_run_validate e0 d pageId etlId b = Inr c0"
    and v1: "POST_run_validate e1 d pageId etlId b = Inr c1"
    and s: "sched \<in> shuffles [0, 0] [1, 1]"
    and x0: "collaborator_failed (fetch_result e0)"
    and x1: "collaborator_failed (fetch_result e1)"
  shows "sys_db (run_schedule sched
                      \<lparr>sys_db = d, sys_calls = [],
                       sys_threads = [(e0, Waiting pageId etlId b),
                                      (e1, Waiting pageId etlId b)]\<rparr>) = d"
proof -
  note rules = any_first_starts [OF v0] any_second_starts [OF v1]
    any_first_finishes any_second_finishes POST_run_complete_tables
    POST_run_complete_failed(1) [OF x0] POST_run_complete_failed(1) [OF x1]
  from s have "sched \<in> {[0, 0, 1, 1], [0, 1, 0, 1], [0, 1, 1, 0],
                          [1, 0, 0, 1], [1, 0, 1, 0], [1, 1, 0, 0]}"
    by auto
  then show ?thesis
    by (auto simp add: run_schedule_def rules)
qed

lemma overlapping_runs_both_stored:
  assumes v0: "POST_run_validate e0 d pageId etlId (Some body) = Inr c0"
    and v1: "POST_run_validate e1 d pageId etlId (Some body) = Inr c1"
    and h: "get_prop body ''html_run_id'' = Some hid"
    and t: "truthy (Some hid)"
    and f0: "fetch_result e0 = FetchResponse st0 tx0 (Some out0)"
    and k0: "ok st0"
    and f1: "fetch_result e1 = FetchResponse st1 tx1 (Some out1)"
    and k1: "ok st1"
    and n0: "failure (db_env e0) = None"
    and n1: "failure (db_env e1) = None"
    and u: "uuid (db_env e0) \<noteq> uuid (db_env e1)"
    and u0: "Some (JStr (uuid (db_env e0))) \<notin> set (map (\<lambda>x. map_of x ''id'') (etl_run d))"
    and u1: "Some (JStr (uuid (db_env e1))) \<notin> set (map (\<lambda>x. map_of x ''id'') (etl_run d))"
    and s: "sched \<in> shuffles [0, 0] [1, 1]"
  shows "let sF = run_schedule sched
                    \<lparr>sys_db = d, sys_calls = [],
                     sys_threads = [(e0, Waiting pageId etlId (Some body)),
                                    (e1, Waiting pageId etlId (Some body))]\<rparr>;
             run0 = complete_row etl_run_columns (db_env e0) (run_payload c0 out0);
             run1 = complete_row etl_run_columns (db_env e1) (run_payload c1 out1)
         in (sys_calls sF = [(0, ctx_call c0), (1, ctx_call c1)]
             \<or> sys_calls sF = [(1, ctx_call c1), (0, ctx_call c0)])
          \<and> (etl_run (sys_db sF) = etl_run d @ [run0, run1]
             \<or> etl_run (sys_db sF) = etl_run d @ [run1, run0])
          \<and> map answer_of (sys_threads sF)
             = [Some (201, Some (JObj run0)), Some (201, Some (JObj run1))]"
proof -
  note i0 = POST_run_validate_html_id [OF v0 h t]
  note i1 = POST_run_validate_html_id [OF v1 h t]
  note rules = first_starts [OF v0] second_starts [OF v1]
    first_finishes [OF f0 k0 n0 i0 t] second_finishes [OF f1 k1 n1 i1 t]
  define s0 where "s0 = \<lparr>sys_db = with_runs d (etl_run d), sys_calls = [],
                     sys_threads = [(e0, Waiting pageId etlId (Some body)),
                                    (e1, Waiting pageId etlId (Some body))]\<rparr>"
  have init: "\<lparr>sys_db = d, sys_calls = [],
                     sys_threads = [(e0, Waiting pageId etlId (Some body)),
                                    (e1, Waiting pageId etlId (Some body))]\<rparr> = s0"
    by (simp add: s0_def with_runs_same)
  from s have "sched \<in> {[0, 0, 1, 1], [0, 1, 0, 1], [0, 1, 1, 0],
                          [1, 0, 0, 1], [1, 0, 1, 0], [1, 1, 0, 0]}"
    by auto
  then show ?thesis
    unfolding init Let_def
    using u u0 u1
    by (auto simp add: s0_def run_schedule_def rules run_row_id answer_of_def run_answer_def
        with_runs_simps)
qed

text \<open>
  Claim C1, amended. Two run requests for the same definition and snapshot that both
  pass validation are served independently of each other, in every interleaving of
  their steps (each request validates and starts its call in one step and resumes in
  a second step when the answer has arrived). Whatever the scraping service answers,
  it has been called exactly twice, once for each request: no call is suppressed, and
  neither request waits for the other or is turned away because of it. When both calls
  fail, the database is what it was. When both calls are answered with a success status
  and a JSON body and both inserts succeed (no failure of the database, distinct fresh
  identifiers), both runs are in the run history, in the order in which the requests
  finished, and each caller is answered with a 201 that carries its own run: no run is
  lost.
\<close>

theorem overlapping_runs_are_independent:
  assumes v0: "POST_run_validate e0 d pageId etlId (Some body) = Inr c0"
    and v1: "POST_run_validate e1 d pageId etlId (Some body) = Inr c1"
    and s: "sched \<in> shuffles [0, 0] [1, 1]"
  shows "let sF = run_schedule sched
                    \<lparr>sys_db = d, sys_calls = [],
                     sys_threads = [(e0, Waiting pageId etlId (Some body)),
                                    (e1, Waiting pageId etlId (Some body))]\<rparr>
         in (sys_calls sF = [(0, ctx_call c0), (1, ctx_call c1)]
             \<or> sys_calls sF = [(1, ctx_call c1), (0, ctx_call c0)])
          \<and> (collaborator_failed (fetch_result e0) \<and> collaborator_failed (fetch_result e1)
               \<longrightarrow> sys_db sF = d)
          \<and> (\<forall>hid st0 tx0 out0 st1 tx1 out1.
                get_prop body ''html_run_id'' = Some hid
                \<and> truthy (Some hid)
                \<and> fetch_result e0 = FetchResponse st0 tx0 (Some out0) \<and> ok st0
                \<and> fetch_result e1 = FetchResponse st1 tx1 (Some out1) \<and> ok st1
                \<and> failure (db_env e0) = None
                \<and> failure (db_env e1) = None
                \<and> uuid (db_env e0) \<noteq> uuid (db_env e1)
                \<and> Some (JStr (uuid (db_env e0))) \<notin> set (map (\<lambda>x. map_of x ''id'') (etl_run d))
                \<and> Some (JStr (uuid (db_env e1))) \<notin> set (map (\<lambda>x. map_of x ''id'') (etl_run d))
                \<longrightarrow>
                (etl_run (sys_db sF)
                   = etl_run d @ [complete_row etl_run_columns (db_env e0) (run_payload c0 out0),
                                  complete_row etl_run_columns (db_env e1) (run_payload c1 out1)]
                 \<or> etl_run (sys_db sF)
                   = etl_run d @ [complete_row etl_run_columns (db_env e1) (run_payload c1 out1),
                                  complete_row etl_run_columns (db_env e0) (run_payload c0 out0)])
                \<and> map answer_of (sys_threads sF)
                    = [Some (201, Some (JObj (complete_row etl_run_columns (db_env e0)
                                                (run_payload c0 out0)))),
                       Some (201, Some (JObj (complete_row etl_run_columns (db_env e1)
                                                (run_payload c1 out1))))])"
proof -
  let ?sF = "run_schedule sched
               \<lparr>sys_db = d, sys_calls = [],
                sys_threads = [(e0, Waiting pageId etlId (Some body)),
                               (e1, Waiting pageId etlId (Some body))]\<rparr>"
  have A: "sys_calls ?sF = [(0, ctx_call c0), (1, ctx_call c1)]
           \<or> sys_calls ?sF = [(1, ctx_call c1), (0, ctx_call c0)]"
    by (rule overlapping_runs_call_twice [OF v0 v1 s])
  have B: "collaborator_failed (fetch_result e0) \<and> collaborator_failed (fetch_result e1)
           \<longrightarrow> sys_db ?sF = d"
    using overlapping_failed_runs_store_nothing [OF v0 v1 s] by blast
  have C: "\<forall>hid st0 tx0 out0 st1 tx1 out1.
             get_prop body ''html_run_id'' = Some hid
             \<and> truthy (Some hid)
             \<and> fetch_result e0 = FetchResponse st0 tx0 (Some out0) \<and> ok st0
             \<and> fetch_result e1 = FetchResponse st1 tx1 (Some out1) \<and> ok st1
             \<and> failure (db_env e0) = None
             \<and> failure (db_env e1) = None
             \<and> uuid (db_env e0) \<noteq> uuid (db_env e1)
             \<and> Some (JStr (uuid (db_env e0))) \<notin> set (map (\<lambda>x. map_of x ''id'') (etl_run d))
             \<and> Some (JStr (uuid (db_env e1))) \<notin> set (map (\<lambda>x. map_of x ''id'') (etl_run d))
             \<longrightarrow>
             (etl_run (sys_db ?sF)
                = etl_run d @ [complete_row etl_run_columns (db_env e0) (run_payload c0 out0),
                               complete_row etl_run_columns (db_env e1) (run_payload c1 out1)]
              \<or> etl_run (sys_db ?sF)
                = etl_run d @ [complete_row etl_run_columns (db_env e1) (run_payload c1 out1),
                               complete_row etl_run_columns (db_env e0) (run_payload c0 out0)])
             \<and> map answer_of (sys_threads ?sF)
                 = [Some (201, Some (JObj (complete_row etl_run_columns (db_env e0)
                                             (run_payload c0 out0)))),
                    Some (201, Some (JObj (complete_row etl_run_columns (db_env e1)
                                             (run_payload c1 out1))))]"
  proof (intro allI, rule impI)
    fix hid st0 tx0 out0 st1 tx1 out1
    assume a: "get_prop body ''html_run_id'' = Some hid
             \<and> truthy (Some hid)
             \<and> fetch_result e0 = FetchResponse st0 tx0 (Some out0) \<and> ok st0
             \<and> fetch_result e1 = FetchResponse st1 tx1 (Some out1) \<and> ok st1
             \<and> failure (db_env e0) = None
             \<and> failure (db_env e1) = None
             \<and> uuid (db_env e0) \<noteq> uuid (db_env e1)
             \<and> Some (JStr (uuid (db_env e0))) \<notin> set (map (\<lambda>x. map_of x ''id'') (etl_run d))
             \<and> Some (JStr (uuid (db_env e1))) \<notin> set (map (\<lambda>x. map_of x ''id'') (etl_run d))"
    from a have b: "get_prop body ''html_run_id'' = Some hid" "truthy (Some hid)"
      "fetch_result e0 = FetchResponse st0 tx0 (Some out0)" "ok st0"
      "fetch_result e1 = FetchResponse st1 tx1 (Some out1)" "ok st1"
      "failure (db_env e0) = None" "failure (db_env e1) = None"
      "uuid (db_env e0) \<noteq> uuid (db_env e1)"
      "Some (JStr (uuid (db_env e0))) \<notin> set (map (\<lambda>x. map_of x ''id'') (etl_run d))"
      "Some (JStr (uuid (db_env e1))) \<notin> set (map (\<lambda>x. map_of x ''id'') (etl_run d))"
      by blast+
    from overlapping_runs_both_stored [OF v0 v1 b s, unfolded Let_def]
    show "(etl_run (sys_db ?sF)
                = etl_run d @ [complete_row etl_run_columns (db_env e0) (run_payload c0 out0),
                               complete_row etl_run_columns (db_env e1) (run_payload c1 out1)]
              \<or> etl_run (sys_db ?sF)
                = etl_run d @ [complete_row etl_run_columns (db_env e1) (run_payload c1 out1),
                               complete_row etl_run_columns (db_env e0) (run_payload c0 out0)])
             \<and> map answer_of (sys_threads ?sF)
                 = [Some (201, Some (JObj (complete_row etl_run_columns (db_env e0)
                                             (run_payload c0 out0)))),
                    Some (201, Some (JObj (complete_row etl_run_columns (db_env e1)
                                             (run_payload c1 out1))))]"
      by blast
  qed
  from A B C show ?thesis unfolding Let_def by (intro conjI)
qed

theorem overlapping_runs_are_independent_witness:
  "[0, 1, 0, 1] \<in> shuffles [0, 0] [1, 1]
   \<and> complete_row etl_run_columns (db_env ex_env)
        (run_payload ex_ctx (JObj [(''title'', JStr ''x'')])) = ex_run
   \<and> complete_row etl_run_columns (db_env ex_env2)
        (run_payload ex_ctx (JObj [(''title'', JStr ''x'')])) = ex_run2
   \<and> (sys_calls (run_schedule [0, 1, 0, 1] ex_system) = [(0, ctx_call ex_ctx), (1, ctx_call ex_ctx)]
       \<or> sys_calls (run_schedule [0, 1, 0, 1] ex_system)
           = [(1, ctx_call ex_ctx), (0, ctx_call ex_ctx)])
   \<and> (etl_run (sys_db (run_schedule [0, 1, 0, 1] ex_system)) = etl_run ex_db @ [ex_run, ex_run2]
       \<or> etl_run (sys_db (run_schedule [0, 1, 0, 1] ex_system))
           = etl_run ex_db @ [ex_run2, ex_run])
   \<and> map answer_of (sys_threads (run_schedule [0, 1, 0, 1] ex_system))
       = [Some (201, Some (JObj ex_run)), Some (201, Some (JObj ex_run2))]
   \<and> collaborator_failed (fetch_result (ex_env\<lparr>fetch_result := FetchThrows None\<rparr>))
   \<and> collaborator_failed (fetch_result (ex_env\<lparr>fetch_result := FetchResponse 500 [] None\<rparr>))
   \<and> (sys_calls (run_schedule [0, 1, 0, 1] ex_system_failing)
         = [(0, ctx_call ex_ctx), (1, ctx_call ex_ctx)]
       \<or> sys_calls (run_schedule [0, 1, 0, 1] ex_system_failing)
         = [(1, ctx_call ex_ctx), (0, ctx_call ex_ctx)])
   \<and> sys_db (run_schedule [0, 1, 0, 1] ex_system_failing) = ex_db"
proof -
  have h: "get_prop (JObj [(''html_run_id'', JStr ''s1'')]) ''html_run_id'' = Some (JStr ''s1'')"
    by simp
  have t: "truthy (Some (JStr ''s1''))"
    by simp
  have f0: "fetch_result ex_env = FetchResponse 200 [] (Some (JObj [(''title'', JStr ''x'')]))"
    by (simp add: ex_env_def)
  have f1: "fetch_result ex_env2 = FetchResponse 200 [] (Some (JObj [(''title'', JStr ''x'')]))"
    by (simp add: ex_env2_def ex_env_def)
  have k: "ok 200"
    by (simp add: ok_def)
  have n0: "failure (db_env ex_env) = None"
    by (simp add: ex_env_def)
  have n1: "failure (db_env ex_env2) = None"
    by (simp add: ex_env2_def)
  have u: "uuid (db_env ex_env) \<noteq> uuid (db_env ex_env2)"
    by (simp add: ex_env2_def ex_env_def)
  have u0: "Some (JStr (uuid (db_env ex_env))) \<notin> set (map (\<lambda>x. map_of x ''id'') (etl_run ex_db))"
    by (simp add: ex_db_def)
  have u1: "Some (JStr (uuid (db_env ex_env2))) \<notin> set (map (\<lambda>x. map_of x ''id'') (etl_run ex_db))"
    by (simp add: ex_db_def)
  have s: "[0, 1, 0, 1] \<in> shuffles [0, 0] [1, 1]"
    by simp
  have r0: "complete_row etl_run_columns (db_env ex_env)
              (run_payload ex_ctx (JObj [(''title'', JStr ''x'')])) = ex_run"
    by (simp add: complete_row_def etl_run_columns_def run_payload_def ex_ctx_def ex_snap1_def
        ex_env_def ex_run_def opt_field_def)
  have r1: "complete_row etl_run_columns (db_env ex_env2)
              (run_payload ex_ctx (JObj [(''title'', JStr ''x'')])) = ex_run2"
    by (simp add: complete_row_def etl_run_columns_def run_payload_def ex_ctx_def ex_snap1_def
        ex_env2_def ex_run2_def opt_field_def)
  have x: "ex_system
           = \<lparr>sys_db = ex_db, sys_calls = [],
              sys_threads =
                [(ex_env, Waiting ''p1'' ''d1'' (Some (JObj [(''html_run_id'', JStr ''s1'')]))),
                 (ex_env2, Waiting ''p1'' ''d1'' (Some (JObj [(''html_run_id'', JStr ''s1'')])))]\<rparr>"
    by (simp add: ex_system_def)
  have y: "ex_system_failing
           = \<lparr>sys_db = ex_db, sys_calls = [],
              sys_threads =
                [(ex_env\<lparr>fetch_result := FetchThrows None\<rparr>,
                  Waiting ''p1'' ''d1'' (Some (JObj [(''html_run_id'', JStr ''s1'')]))),
                 (ex_env\<lparr>fetch_result := FetchResponse 500 [] None\<rparr>,
                  Waiting ''p1'' ''d1'' (Some (JObj [(''html_run_id'', JStr ''s1'')])))]\<rparr>"
    by (simp add: ex_system_failing_def)
  have w0: "POST_run_validate (ex_env\<lparr>fetch_result := FetchThrows None\<rparr>) ex_db ''p1'' ''d1''
              (Some (JObj [(''html_run_id'', JStr ''s1'')])) = Inr ex_ctx"
    using ex_validate [where f = "FetchThrows None" and e = "db_env ex_env"
        and rs = "etl_run ex_db"]
    by simp
  have w1: "POST_run_validate (ex_env\<lparr>fetch_result := FetchResponse 500 [] None\<rparr>) ex_db ''p1''
              ''d1'' (Some (JObj [(''html_run_id'', JStr ''s1'')])) = Inr ex_ctx"
    using ex_validate [where f = "FetchResponse 500 [] None" and e = "db_env ex_env"
        and rs = "etl_run ex_db"]
    by simp
  have c0: "collaborator_failed (fetch_result (ex_env\<lparr>fetch_result := FetchThrows None\<rparr>))"
    by (simp add: collaborator_failed_def)
  have c1: "collaborator_failed
              (fetch_result (ex_env\<lparr>fetch_result := FetchResponse 500 [] None\<rparr>))"
    by (simp add: collaborator_failed_def)
  note good = overlapping_runs_are_independent
    [OF ex_validate_both(1) ex_validate_both(2) s, unfolded Let_def x [symmetric]]
  note bad = overlapping_runs_are_independent [OF w0 w1 s, unfolded Let_def y [symmetric]]
  from good have g1:
    "sys_calls (run_schedule [0, 1, 0, 1] ex_system) = [(0, ctx_call ex_ctx), (1, ctx_call ex_ctx)]
     \<or> sys_calls (run_schedule [0, 1, 0, 1] ex_system)
         = [(1, ctx_call ex_ctx), (0, ctx_call ex_ctx)]"
    by (rule conjunct1)
  from good [THEN conjunct2, THEN conjunct2, rule_format,
      of "JStr ''s1''" 200 "[]" "JObj [(''title'', JStr ''x'')]" 200 "[]"
        "JObj [(''title'', JStr ''x'')]"]
    h t f0 f1 k n0 n1 u u0 u1
  have g2:
    "(etl_run (sys_db (run_schedule [0, 1, 0, 1] ex_system)) = etl_run ex_db @ [ex_run, ex_run2]
       \<or> etl_run (sys_db (run_schedule [0, 1, 0, 1] ex_system))
           = etl_run ex_db @ [ex_run2, ex_run])
     \<and> map answer_of (sys_threads (run_schedule [0, 1, 0, 1] ex_system))
       = [Some (201, Some (JObj ex_run)), Some (201, Some (JObj ex_run2))]"
    unfolding r0 r1 by simp
  from bad have b1:
    "sys_calls (run_schedule [0, 1, 0, 1] ex_system_failing)
         = [(0, ctx_call ex_ctx), (1, ctx_call ex_ctx)]
       \<or> sys_calls (run_schedule [0, 1, 0, 1] ex_system_failing)
         = [(1, ctx_call ex_ctx), (0, ctx_call ex_ctx)]"
    by (rule conjunct1)
  from bad [THEN conjunct2, THEN conjunct1] c0 c1
  have b2: "sys_db (run_schedule [0, 1, 0, 1] ex_system_failing) = ex_db"
    by simp
  from s r0 r1 g1 g2 c0 c1 b1 b2 show ?thesis by simp
qed

end
